theory Spec2Isabelle
  imports Complex_Main "HOL-Library.Word" "HOL-Library.Signed_Division"
begin

unbundle bit_operations_syntax

section \<open>The SHT3x driver (sht3x.c, sht3x.h) as HOL functions\<close>

subsection \<open>Machine types\<close>

text \<open>
  The C integer types are words of their width. A signed type is read with \<open>sint\<close>, an
  unsigned one with \<open>unat\<close> or \<open>uint\<close>. \<open>int\<close> is taken to be 32 bits wide, which
  is what the integer promotions of \<open>uint16_t\<close> and \<open>int16_t\<close> operands produce on the
  targets of this driver.
\<close>

type_synonym uint8_t = "8 word"
type_synonym uint16_t = "16 word"
type_synonym int16_t = "16 word"
type_synonym uint32_t = "32 word"
type_synonym int32_t = "32 word"

text \<open>
  The three enumerations of sht3x.h. A C enumeration is an integer type, and a caller can
  pass a value that is none of its enumerators (the \<open>default\<close> branches of the driver
  exist for that), so each one is a word together with its enumerators as constants.
\<close>

type_synonym sht3x_i2c_addr_t = "32 word"
type_synonym sht3x_measurement_mode_t = "32 word"
type_synonym sht3x_alert_thd_t = "32 word"

definition SHT3X_I2C_ADDR_DFLT :: sht3x_i2c_addr_t where
  "SHT3X_I2C_ADDR_DFLT = 0x44"

definition SHT3X_I2C_ADDR_ALT :: sht3x_i2c_addr_t where
  "SHT3X_I2C_ADDR_ALT = 0x45"

definition SHT3X_MEAS_MODE_LPM :: sht3x_measurement_mode_t where
  "SHT3X_MEAS_MODE_LPM = 0"

definition SHT3X_MEAS_MODE_MPM :: sht3x_measurement_mode_t where
  "SHT3X_MEAS_MODE_MPM = 1"

definition SHT3X_MEAS_MODE_HPM :: sht3x_measurement_mode_t where
  "SHT3X_MEAS_MODE_HPM = 2"

definition SHT3X_HIALRT_SET :: sht3x_alert_thd_t where
  "SHT3X_HIALRT_SET = 0"

definition SHT3X_HIALRT_CLR :: sht3x_alert_thd_t where
  "SHT3X_HIALRT_CLR = 1"

definition SHT3X_LOALRT_CLR :: sht3x_alert_thd_t where
  "SHT3X_LOALRT_CLR = 2"

definition SHT3X_LOALRT_SET :: sht3x_alert_thd_t where
  "SHT3X_LOALRT_SET = 3"

subsection \<open>Constants of sht3x.h and sht3x.c\<close>

definition STATUS_OK :: int16_t where
  "STATUS_OK = 0"

definition STATUS_ERR_BAD_DATA :: int16_t where
  "STATUS_ERR_BAD_DATA = - 1"

definition STATUS_CRC_FAIL :: int16_t where
  "STATUS_CRC_FAIL = - 2"

definition STATUS_UNKNOWN_DEVICE :: int16_t where
  "STATUS_UNKNOWN_DEVICE = - 3"

definition STATUS_ERR_INVALID_PARAMS :: int16_t where
  "STATUS_ERR_INVALID_PARAMS = - 4"

definition SHT3X_MEASUREMENT_DURATION_USEC :: nat where
  "SHT3X_MEASUREMENT_DURATION_USEC = 15000"

definition SHT3X_HUMIDITY_LIMIT_MSK :: "32 word" where
  "SHT3X_HUMIDITY_LIMIT_MSK = 0xFE00"

definition SHT3X_TEMPERATURE_LIMIT_MSK :: "32 word" where
  "SHT3X_TEMPERATURE_LIMIT_MSK = 0x01FF"

definition SHT3X_CMD_READ_STATUS_REG :: uint16_t where
  "SHT3X_CMD_READ_STATUS_REG = 0xF32D"

definition SHT3X_CMD_CLR_STATUS_REG :: uint16_t where
  "SHT3X_CMD_CLR_STATUS_REG = 0x3041"

definition SHT3X_CMD_READ_SERIAL_ID :: uint16_t where
  "SHT3X_CMD_READ_SERIAL_ID = 0x3780"

definition SHT3X_CMD_DURATION_USEC :: uint16_t where
  "SHT3X_CMD_DURATION_USEC = 1000"

definition SHT3X_CMD_READ_HIALRT_LIM_SET :: uint16_t where
  "SHT3X_CMD_READ_HIALRT_LIM_SET = 0xE11F"

definition SHT3X_CMD_READ_HIALRT_LIM_CLR :: uint16_t where
  "SHT3X_CMD_READ_HIALRT_LIM_CLR = 0xE114"

definition SHT3X_CMD_READ_LOALRT_LIM_CLR :: uint16_t where
  "SHT3X_CMD_READ_LOALRT_LIM_CLR = 0xE109"

definition SHT3X_CMD_READ_LOALRT_LIM_SET :: uint16_t where
  "SHT3X_CMD_READ_LOALRT_LIM_SET = 0xE102"

definition SHT3X_CMD_WRITE_HIALRT_LIM_SET :: uint16_t where
  "SHT3X_CMD_WRITE_HIALRT_LIM_SET = 0x611D"

definition SHT3X_CMD_WRITE_HIALRT_LIM_CLR :: uint16_t where
  "SHT3X_CMD_WRITE_HIALRT_LIM_CLR = 0x6116"

definition SHT3X_CMD_WRITE_LOALRT_LIM_CLR :: uint16_t where
  "SHT3X_CMD_WRITE_LOALRT_LIM_CLR = 0x610B"

definition SHT3X_CMD_WRITE_LOALRT_LIM_SET :: uint16_t where
  "SHT3X_CMD_WRITE_LOALRT_LIM_SET = 0x6100"

subsection \<open>Status word macros of sht3x.h\<close>

definition SHT3X_IS_ALRT_PENDING :: "uint16_t \<Rightarrow> bool" where
  "SHT3X_IS_ALRT_PENDING status \<longleftrightarrow> status AND 0x8000 \<noteq> 0"

definition SHT3X_IS_ALRT_RH_TRACK :: "uint16_t \<Rightarrow> bool" where
  "SHT3X_IS_ALRT_RH_TRACK status \<longleftrightarrow> status AND 0x0800 \<noteq> 0"

definition SHT3X_IS_ALRT_T_TRACK :: "uint16_t \<Rightarrow> bool" where
  "SHT3X_IS_ALRT_T_TRACK status \<longleftrightarrow> status AND 0x0400 \<noteq> 0"

definition SHT3X_IS_SYSTEM_RST_DETECT :: "uint16_t \<Rightarrow> bool" where
  "SHT3X_IS_SYSTEM_RST_DETECT status \<longleftrightarrow> status AND 0x0010 \<noteq> 0"

definition SHT3X_IS_LAST_CRC_FAIL :: "uint16_t \<Rightarrow> bool" where
  "SHT3X_IS_LAST_CRC_FAIL status \<longleftrightarrow> status AND 0x0001 \<noteq> 0"

subsection \<open>The environment: bus transport, delay, build configuration\<close>

text \<open>
  The driver calls the bus transport (sensirion_i2c.h), the delay and byte helpers
  (sensirion_common.h) and reads two build-time macros (sensirion_arch_config.h,
  sht_git_version.h). None of these is part of the driver's sources, so they are parameters
  of the model. Every call the driver makes to the outside is appended, in order, to a log
  that is part of the driver's state; what the outside answers is a function of the log so
  far and of the call.
\<close>

datatype bus_call =
    Write_cmd sht3x_i2c_addr_t uint16_t
  | Write_cmd_with_args sht3x_i2c_addr_t uint16_t "uint16_t list"
  | Read_words sht3x_i2c_addr_t nat
  | Read_words_as_bytes sht3x_i2c_addr_t nat
  | Read_cmd sht3x_i2c_addr_t uint16_t nat
  | Delayed_read_cmd sht3x_i2c_addr_t uint16_t nat nat
  | Sleep_usec nat

record bus_reply =
  ret_code :: int16_t
  reply_words :: "uint16_t list"
  reply_bytes :: "uint8_t list"

record env =
  USE_SENSIRION_CLOCK_STRETCHING :: bool
  SHT_DRV_VERSION_STR :: string
  bus :: "bus_call list \<Rightarrow> bus_call \<Rightarrow> bus_reply"
  sensirion_bytes_to_uint32_t :: "uint8_t list \<Rightarrow> uint32_t"
  uninit16 :: "bus_call list \<Rightarrow> nat \<Rightarrow> uint16_t"
  uninit8 :: "bus_call list \<Rightarrow> nat \<Rightarrow> uint8_t"

text \<open>
  \<open>uninit16\<close> and \<open>uninit8\<close> give the indeterminate contents of the driver's
  uninitialised automatic variables (\<open>words\<close>, \<open>status\<close>, \<open>serial_bytes\<close>, \<open>word\<close>):
  C does not say what they hold, so the environment does.

  The state of the driver is its one static variable and the log of outside calls.
\<close>

record driver_state =
  sht3x_cmd_measure :: uint16_t
  calls :: "bus_call list"

text \<open>
  A read hands the transport a buffer. The transport stores the data it has into the
  front of the buffer; what it does not overwrite keeps its previous contents.
\<close>

definition store_buf :: "'a list \<Rightarrow> 'a list \<Rightarrow> 'a list" where
  "store_buf buf xs = take (length buf) xs @ drop (length xs) buf"

definition log_call :: "driver_state \<Rightarrow> bus_call \<Rightarrow> driver_state" where
  "log_call s c = s\<lparr>calls := calls s @ [c]\<rparr>"

definition sensirion_sleep_usec :: "driver_state \<Rightarrow> nat \<Rightarrow> driver_state" where
  "sensirion_sleep_usec s useconds = log_call s (Sleep_usec useconds)"

definition sensirion_i2c_write_cmd ::
  "env \<Rightarrow> driver_state \<Rightarrow> sht3x_i2c_addr_t \<Rightarrow> uint16_t \<Rightarrow> int16_t \<times> driver_state" where
  "sensirion_i2c_write_cmd e s addr command =
     (let c = Write_cmd addr command
      in (ret_code (bus e (calls s) c), log_call s c))"

definition sensirion_i2c_write_cmd_with_args ::
  "env \<Rightarrow> driver_state \<Rightarrow> sht3x_i2c_addr_t \<Rightarrow> uint16_t \<Rightarrow> uint16_t list \<Rightarrow> nat
     \<Rightarrow> int16_t \<times> driver_state" where
  "sensirion_i2c_write_cmd_with_args e s addr command data_words num_words =
     (let c = Write_cmd_with_args addr command (take num_words data_words)
      in (ret_code (bus e (calls s) c), log_call s c))"

definition sensirion_i2c_read_words ::
  "env \<Rightarrow> driver_state \<Rightarrow> sht3x_i2c_addr_t \<Rightarrow> uint16_t list \<Rightarrow> nat
     \<Rightarrow> int16_t \<times> uint16_t list \<times> driver_state" where
  "sensirion_i2c_read_words e s addr buf num_words =
     (let c = Read_words addr num_words;
          r = bus e (calls s) c
      in (ret_code r, store_buf buf (reply_words r), log_call s c))"

definition sensirion_i2c_read_words_as_bytes ::
  "env \<Rightarrow> driver_state \<Rightarrow> sht3x_i2c_addr_t \<Rightarrow> uint8_t list \<Rightarrow> nat
     \<Rightarrow> int16_t \<times> uint8_t list \<times> driver_state" where
  "sensirion_i2c_read_words_as_bytes e s addr buf num_words =
     (let c = Read_words_as_bytes addr num_words;
          r = bus e (calls s) c
      in (ret_code r, store_buf buf (reply_bytes r), log_call s c))"

definition sensirion_i2c_read_cmd ::
  "env \<Rightarrow> driver_state \<Rightarrow> sht3x_i2c_addr_t \<Rightarrow> uint16_t \<Rightarrow> uint16_t list \<Rightarrow> nat
     \<Rightarrow> int16_t \<times> uint16_t list \<times> driver_state" where
  "sensirion_i2c_read_cmd e s addr cmd buf num_words =
     (let c = Read_cmd addr cmd num_words;
          r = bus e (calls s) c
      in (ret_code r, store_buf buf (reply_words r), log_call s c))"

definition sensirion_i2c_delayed_read_cmd ::
  "env \<Rightarrow> driver_state \<Rightarrow> sht3x_i2c_addr_t \<Rightarrow> uint16_t \<Rightarrow> nat \<Rightarrow> uint16_t list \<Rightarrow> nat
     \<Rightarrow> int16_t \<times> uint16_t list \<times> driver_state" where
  "sensirion_i2c_delayed_read_cmd e s addr cmd delay_us buf num_words =
     (let c = Delayed_read_cmd addr cmd delay_us num_words;
          r = bus e (calls s) c
      in (ret_code r, store_buf buf (reply_words r), log_call s c))"

text \<open>
  Modelled from the spec: the macro \<open>SENSIRION_NUM_WORDS\<close> of sensirion_common.h is not
  part of the driver's sources. The spec has \<open>read\<close> read "two 16-bit words" into
  \<open>words[2]\<close> and \<open>readSerial\<close> read "4 bytes (two words)" into \<open>serial_bytes[4]\<close>:
  the size of the array in bytes over the two bytes of a word.
\<close>

definition SENSIRION_NUM_WORDS :: "nat \<Rightarrow> nat" where
  "SENSIRION_NUM_WORDS size_in_bytes = size_in_bytes div 2"

subsection \<open>Measurement commands\<close>

definition SHT3X_CMD_MEASURE_HPM :: "env \<Rightarrow> uint16_t" where
  "SHT3X_CMD_MEASURE_HPM e = (if USE_SENSIRION_CLOCK_STRETCHING e then 0x2C06 else 0x2400)"

definition SHT3X_CMD_MEASURE_MPM :: "env \<Rightarrow> uint16_t" where
  "SHT3X_CMD_MEASURE_MPM e = (if USE_SENSIRION_CLOCK_STRETCHING e then 0x2C0D else 0x240B)"

definition SHT3X_CMD_MEASURE_LPM :: "env \<Rightarrow> uint16_t" where
  "SHT3X_CMD_MEASURE_LPM e = (if USE_SENSIRION_CLOCK_STRETCHING e then 0x2C10 else 0x2416)"

text \<open>The state at program start: the initialiser of the static variable, no call made.\<close>

definition initial_state :: "env \<Rightarrow> driver_state" where
  "initial_state e = \<lparr>sht3x_cmd_measure = SHT3X_CMD_MEASURE_HPM e, calls = []\<rparr>"

subsection \<open>Integer arithmetic of C\<close>

text \<open>
  \<open>/\<close> on two \<open>int32_t\<close> operands: the quotient truncated towards zero. (The driver
  divides by the constant 65535 only, so neither a zero divisor nor the overflow of
  \<open>INT_MIN / -1\<close> arises.)
\<close>

definition int32_div :: "int32_t \<Rightarrow> int32_t \<Rightarrow> int32_t" where
  "int32_div a b = word_of_int (sint a sdiv sint b)"

subsection \<open>Measuring\<close>

definition sht3x_measure ::
  "env \<Rightarrow> driver_state \<Rightarrow> sht3x_i2c_addr_t \<Rightarrow> int16_t \<times> driver_state" where
  "sht3x_measure e s addr = sensirion_i2c_write_cmd e s addr (sht3x_cmd_measure s)"

text \<open>
  An output parameter \<open>int32_t* p\<close> is a value passed in (what \<open>*p\<close> holds at the call)
  and a value returned (what \<open>*p\<close> holds at the return).
  \<open>>>\<close> on an \<open>int32_t\<close> is the arithmetic shift.
\<close>

definition sht3x_read ::
  "env \<Rightarrow> driver_state \<Rightarrow> sht3x_i2c_addr_t \<Rightarrow> int32_t \<Rightarrow> int32_t
     \<Rightarrow> int16_t \<times> int32_t \<times> int32_t \<times> driver_state" where
  "sht3x_read e s addr temperature humidity =
     (let words = [uninit16 e (calls s) 0, uninit16 e (calls s) 1];
          (ret, words, s) =
            sensirion_i2c_read_words e s addr words (SENSIRION_NUM_WORDS (2 * 2));
          temperature = signed_drop_bit 13 (21875 * (ucast (words ! 0) :: int32_t)) - 45000;
          humidity = signed_drop_bit 13 (12500 * (ucast (words ! 1) :: int32_t))
      in (ret, temperature, humidity, s))"

definition sht3x_measure_blocking_read ::
  "env \<Rightarrow> driver_state \<Rightarrow> sht3x_i2c_addr_t \<Rightarrow> int32_t \<Rightarrow> int32_t
     \<Rightarrow> int16_t \<times> int32_t \<times> int32_t \<times> driver_state" where
  "sht3x_measure_blocking_read e s addr temperature humidity =
     (let (ret, s) = sht3x_measure e s addr
      in if ret = STATUS_OK then
           (let s = (if \<not> USE_SENSIRION_CLOCK_STRETCHING e
                     then sensirion_sleep_usec s SHT3X_MEASUREMENT_DURATION_USEC
                     else s)
            in sht3x_read e s addr temperature humidity)
         else (ret, temperature, humidity, s))"

subsection \<open>Status\<close>

definition sht3x_probe ::
  "env \<Rightarrow> driver_state \<Rightarrow> sht3x_i2c_addr_t \<Rightarrow> int16_t \<times> driver_state" where
  "sht3x_probe e s addr =
     (let status = [uninit16 e (calls s) 0];
          (ret, status, s) =
            sensirion_i2c_delayed_read_cmd e s addr SHT3X_CMD_READ_STATUS_REG
              (unat SHT3X_CMD_DURATION_USEC) status 1
      in (ret, s))"

definition sht3x_get_status ::
  "env \<Rightarrow> driver_state \<Rightarrow> sht3x_i2c_addr_t \<Rightarrow> uint16_t
     \<Rightarrow> int16_t \<times> uint16_t \<times> driver_state" where
  "sht3x_get_status e s addr status =
     (let (ret, status, s) =
            sensirion_i2c_delayed_read_cmd e s addr SHT3X_CMD_READ_STATUS_REG
              (unat SHT3X_CMD_DURATION_USEC) [status] 1
      in (ret, status ! 0, s))"

definition sht3x_clear_status ::
  "env \<Rightarrow> driver_state \<Rightarrow> sht3x_i2c_addr_t \<Rightarrow> int16_t \<times> driver_state" where
  "sht3x_clear_status e s addr = sensirion_i2c_write_cmd e s addr SHT3X_CMD_CLR_STATUS_REG"

subsection \<open>Power mode\<close>

definition sht3x_enable_low_power_mode :: "env \<Rightarrow> driver_state \<Rightarrow> uint8_t \<Rightarrow> driver_state" where
  "sht3x_enable_low_power_mode e s enable_low_power_mode =
     s\<lparr>sht3x_cmd_measure :=
         (if enable_low_power_mode \<noteq> 0 then SHT3X_CMD_MEASURE_LPM e
          else SHT3X_CMD_MEASURE_HPM e)\<rparr>"

definition sht3x_set_power_mode ::
  "env \<Rightarrow> driver_state \<Rightarrow> sht3x_measurement_mode_t \<Rightarrow> driver_state" where
  "sht3x_set_power_mode e s mode =
     (if mode = SHT3X_MEAS_MODE_LPM then s\<lparr>sht3x_cmd_measure := SHT3X_CMD_MEASURE_LPM e\<rparr>
      else if mode = SHT3X_MEAS_MODE_MPM then s\<lparr>sht3x_cmd_measure := SHT3X_CMD_MEASURE_MPM e\<rparr>
      else if mode = SHT3X_MEAS_MODE_HPM then s\<lparr>sht3x_cmd_measure := SHT3X_CMD_MEASURE_HPM e\<rparr>
      else s\<lparr>sht3x_cmd_measure := SHT3X_CMD_MEASURE_HPM e\<rparr>)"

subsection \<open>Serial number, version, address\<close>

definition sht3x_read_serial ::
  "env \<Rightarrow> driver_state \<Rightarrow> sht3x_i2c_addr_t \<Rightarrow> uint32_t
     \<Rightarrow> int16_t \<times> uint32_t \<times> driver_state" where
  "sht3x_read_serial e s addr serial =
     (let serial_bytes = map (uninit8 e (calls s)) [0, 1, 2, 3];
          (ret, s) = sensirion_i2c_write_cmd e s addr SHT3X_CMD_READ_SERIAL_ID;
          s = sensirion_sleep_usec s (unat SHT3X_CMD_DURATION_USEC)
      in if ret = STATUS_OK then
           (let (ret, serial_bytes, s) =
                  sensirion_i2c_read_words_as_bytes e s addr serial_bytes
                    (SENSIRION_NUM_WORDS 4);
                serial = sensirion_bytes_to_uint32_t e serial_bytes
            in (ret, serial, s))
         else (ret, serial, s))"

definition sht3x_get_driver_version ::
  "env \<Rightarrow> driver_state \<Rightarrow> sht3x_i2c_addr_t \<Rightarrow> string \<times> driver_state" where
  "sht3x_get_driver_version e s addr = (SHT_DRV_VERSION_STR e, s)"

text \<open>The return type is \<open>uint8_t\<close>: the value returned is \<open>addr\<close> converted to it.\<close>

definition sht3x_get_configured_address ::
  "env \<Rightarrow> driver_state \<Rightarrow> sht3x_i2c_addr_t \<Rightarrow> uint8_t \<times> driver_state" where
  "sht3x_get_configured_address e s addr = (ucast addr, s)"

subsection \<open>Alert thresholds\<close>

text \<open>
  The block of \<open>sht3x_set_alert_thd\<close> that converts its inputs to the threshold word
  (\<open>limitVal\<close>). \<open>humidity << 16\<close> and \<open>temperature + 450\<close> are computed in \<open>int\<close>
  and stored into the \<open>uint32_t tmp\<close>; for a humidity of 0x8000 and more the shift
  overflows \<open>int\<close>, and the model wraps around there as the usual compilers do.
\<close>

definition alert_thd_limitVal :: "uint16_t \<Rightarrow> int16_t \<Rightarrow> uint16_t" where
  "alert_thd_limitVal humidity temperature =
     (let tmp = (push_bit 16 (ucast humidity) - ucast humidity :: uint32_t);
          tmp = tmp div 1000;
          limitVal =
            (ucast (ucast (ucast tmp :: uint16_t) AND SHT3X_HUMIDITY_LIMIT_MSK) :: uint16_t);
          tmp = (scast temperature + 450 :: uint32_t);
          tmp = push_bit 16 tmp - tmp;
          tmp = tmp div 1750;
          tmp = drop_bit 7 tmp
      in ucast (ucast limitVal OR
           (ucast (ucast tmp :: uint16_t) AND SHT3X_TEMPERATURE_LIMIT_MSK)))"

definition sht3x_set_alert_thd ::
  "env \<Rightarrow> driver_state \<Rightarrow> sht3x_i2c_addr_t \<Rightarrow> sht3x_alert_thd_t \<Rightarrow> uint16_t \<Rightarrow> int16_t
     \<Rightarrow> int16_t \<times> driver_state" where
  "sht3x_set_alert_thd e s addr thd humidity temperature =
     (let limitVal = alert_thd_limitVal humidity temperature
      in if thd = SHT3X_HIALRT_SET then
           sensirion_i2c_write_cmd_with_args e s addr SHT3X_CMD_WRITE_HIALRT_LIM_SET [limitVal] 1
         else if thd = SHT3X_HIALRT_CLR then
           sensirion_i2c_write_cmd_with_args e s addr SHT3X_CMD_WRITE_HIALRT_LIM_CLR [limitVal] 1
         else if thd = SHT3X_LOALRT_CLR then
           sensirion_i2c_write_cmd_with_args e s addr SHT3X_CMD_WRITE_LOALRT_LIM_CLR [limitVal] 1
         else if thd = SHT3X_LOALRT_SET then
           sensirion_i2c_write_cmd_with_args e s addr SHT3X_CMD_WRITE_LOALRT_LIM_SET [limitVal] 1
         else (STATUS_ERR_INVALID_PARAMS, s))"

text \<open>
  The two blocks of \<open>sht3x_get_alert_thd\<close> that convert the threshold word to the
  settings in 10*%RH and 10*degC, as they are stored through the output parameters.
\<close>

definition alert_thd_humidity :: "uint16_t \<Rightarrow> uint16_t" where
  "alert_thd_humidity word =
     (let tmp = (ucast (ucast word AND SHT3X_HUMIDITY_LIMIT_MSK) :: int32_t);
          tmp = int32_div (1000 * tmp) 65535
      in ucast tmp)"

definition alert_thd_temperature :: "uint16_t \<Rightarrow> int16_t" where
  "alert_thd_temperature word =
     (let tmp = (ucast (ucast word AND SHT3X_TEMPERATURE_LIMIT_MSK) :: int32_t);
          tmp = push_bit 7 tmp;
          tmp = int32_div (tmp * 1750) 65535;
          tmp = tmp - 450
      in ucast tmp)"

definition sht3x_get_alert_thd ::
  "env \<Rightarrow> driver_state \<Rightarrow> sht3x_i2c_addr_t \<Rightarrow> sht3x_alert_thd_t \<Rightarrow> uint16_t \<Rightarrow> int16_t
     \<Rightarrow> int16_t \<times> uint16_t \<times> int16_t \<times> driver_state" where
  "sht3x_get_alert_thd e s addr thd humidity temperature =
     (let word = [uninit16 e (calls s) 0];
          (ret, word, s) =
            (if thd = SHT3X_HIALRT_SET then
               sensirion_i2c_read_cmd e s addr SHT3X_CMD_READ_HIALRT_LIM_SET word 1
             else if thd = SHT3X_HIALRT_CLR then
               sensirion_i2c_read_cmd e s addr SHT3X_CMD_READ_HIALRT_LIM_CLR word 1
             else if thd = SHT3X_LOALRT_CLR then
               sensirion_i2c_read_cmd e s addr SHT3X_CMD_READ_LOALRT_LIM_CLR word 1
             else if thd = SHT3X_LOALRT_SET then
               sensirion_i2c_read_cmd e s addr SHT3X_CMD_READ_LOALRT_LIM_SET word 1
             else (STATUS_ERR_INVALID_PARAMS, word, s));
          humidity = alert_thd_humidity (word ! 0);
          temperature = alert_thd_temperature (word ! 0)
      in (ret, humidity, temperature, s))"

subsection \<open>Sequences of calls\<close>

text \<open>
  The public functions of sht3x.h with their arguments (for an output parameter, the value
  it holds at the call), and the state a call leaves behind.
\<close>

datatype driver_call =
    Probe sht3x_i2c_addr_t
  | Get_status sht3x_i2c_addr_t uint16_t
  | Clear_status sht3x_i2c_addr_t
  | Measure_blocking_read sht3x_i2c_addr_t int32_t int32_t
  | Measure sht3x_i2c_addr_t
  | Read sht3x_i2c_addr_t int32_t int32_t
  | Enable_low_power_mode uint8_t
  | Set_power_mode sht3x_measurement_mode_t
  | Read_serial sht3x_i2c_addr_t uint32_t
  | Get_driver_version sht3x_i2c_addr_t
  | Get_configured_address sht3x_i2c_addr_t
  | Set_alert_thd sht3x_i2c_addr_t sht3x_alert_thd_t uint16_t int16_t
  | Get_alert_thd sht3x_i2c_addr_t sht3x_alert_thd_t uint16_t int16_t

fun state_after :: "env \<Rightarrow> driver_state \<Rightarrow> driver_call \<Rightarrow> driver_state" where
  "state_after e s (Probe addr) = snd (sht3x_probe e s addr)"
| "state_after e s (Get_status addr st) = snd (snd (sht3x_get_status e s addr st))"
| "state_after e s (Clear_status addr) = snd (sht3x_clear_status e s addr)"
| "state_after e s (Measure_blocking_read addr t h) =
     snd (snd (snd (sht3x_measure_blocking_read e s addr t h)))"
| "state_after e s (Measure addr) = snd (sht3x_measure e s addr)"
| "state_after e s (Read addr t h) = snd (snd (snd (sht3x_read e s addr t h)))"
| "state_after e s (Enable_low_power_mode b) = sht3x_enable_low_power_mode e s b"
| "state_after e s (Set_power_mode mode) = sht3x_set_power_mode e s mode"
| "state_after e s (Read_serial addr serial) = snd (snd (sht3x_read_serial e s addr serial))"
| "state_after e s (Get_driver_version addr) = snd (sht3x_get_driver_version e s addr)"
| "state_after e s (Get_configured_address addr) = snd (sht3x_get_configured_address e s addr)"
| "state_after e s (Set_alert_thd addr thd h t) = snd (sht3x_set_alert_thd e s addr thd h t)"
| "state_after e s (Get_alert_thd addr thd h t) =
     snd (snd (snd (sht3x_get_alert_thd e s addr thd h t)))"

fun run :: "env \<Rightarrow> driver_state \<Rightarrow> driver_call list \<Rightarrow> driver_state" where
  "run e s [] = s"
| "run e s (c # cs) = run e (state_after e s c) cs"

text \<open>The two functions that assign to the static variable.\<close>

fun sets_power_mode :: "driver_call \<Rightarrow> bool" where
  "sets_power_mode (Enable_low_power_mode b) = True"
| "sets_power_mode (Set_power_mode mode) = True"
| "sets_power_mode c = False"

text \<open>The measurement commands of the build.\<close>

definition valid_cmd_measure :: "env \<Rightarrow> uint16_t \<Rightarrow> bool" where
  "valid_cmd_measure e c \<longleftrightarrow>
     c = SHT3X_CMD_MEASURE_HPM e \<or> c = SHT3X_CMD_MEASURE_MPM e \<or> c = SHT3X_CMD_MEASURE_LPM e"

subsection \<open>A concrete environment\<close>

text \<open>
  An environment to evaluate the driver in: a transport that answers every call with the
  same return code and the same data, a big-endian byte helper, and uninitialised
  variables that all hold the same word.
\<close>

definition bytes_be :: "uint8_t list \<Rightarrow> uint32_t" where
  "bytes_be bs = foldl (\<lambda>acc b. push_bit 8 acc OR ucast b) 0 bs"

definition const_env :: "bool \<Rightarrow> int16_t \<Rightarrow> uint16_t list \<Rightarrow> uint16_t \<Rightarrow> env" where
  "const_env stretching rc ws junk =
     \<lparr>USE_SENSIRION_CLOCK_STRETCHING = stretching,
      SHT_DRV_VERSION_STR = ''sht3x'',
      bus = (\<lambda>log c. \<lparr>ret_code = rc, reply_words = ws, reply_bytes = concat (map (\<lambda>w. [ucast (drop_bit 8 w), ucast w]) ws)\<rparr>),
      sensirion_bytes_to_uint32_t = bytes_be,
      uninit16 = (\<lambda>log i. junk),
      uninit8 = (\<lambda>log i. ucast junk)\<rparr>"

section \<open>Properties\<close>

subsection \<open>Arithmetic helpers\<close>

lemma sint32_word_of_int:
  "- 2147483648 \<le> k \<Longrightarrow> k < 2147483648 \<Longrightarrow> sint (word_of_int k :: 32 word) = k"
  by (simp add: sint_sbintrunc' signed_take_bit_int_eq_self)

lemma uint16_bounds: "0 \<le> uint (w :: 16 word) \<and> uint w < 65536"
  using uint_lt2p [of w] by simp

lemma temperature_conversion:
  "sint (signed_drop_bit 13 (21875 * (ucast (w :: 16 word) :: 32 word)) - 45000)
     = (21875 * uint w) div 2 ^ 13 - 45000"
proof -
  have b: "0 \<le> uint w" "uint w < 65536"
    using uint16_bounds [of w] by simp_all
  have p: "21875 * (ucast w :: 32 word) = word_of_int (21875 * uint w)"
    by simp
  have s: "sint (21875 * (ucast w :: 32 word)) = 21875 * uint w"
    unfolding p using b by (intro sint32_word_of_int) linarith+
  have d: "sint (signed_drop_bit 13 (21875 * (ucast w :: 32 word))) = (21875 * uint w) div 2 ^ 13"
    by (simp only: sint_signed_drop_bit_eq s drop_bit_int_def)
  have r: "0 \<le> (21875 * uint w) div 2 ^ 13" "(21875 * uint w) div 2 ^ 13 < 175000"
    using b by (simp_all add: pos_imp_zdiv_nonneg_iff)
  have "signed_drop_bit 13 (21875 * (ucast w :: 32 word)) - 45000
      = word_of_int (sint (signed_drop_bit 13 (21875 * (ucast w :: 32 word))) - 45000)"
    by simp
  then have "sint (signed_drop_bit 13 (21875 * (ucast w :: 32 word)) - 45000)
      = sint (word_of_int ((21875 * uint w) div 2 ^ 13 - 45000) :: 32 word)"
    by (simp only: d)
  also have "\<dots> = (21875 * uint w) div 2 ^ 13 - 45000"
    using r by (intro sint32_word_of_int) linarith+
  finally show ?thesis .
qed

lemma humidity_conversion:
  "sint (signed_drop_bit 13 (12500 * (ucast (w :: 16 word) :: 32 word)))
     = (12500 * uint w) div 2 ^ 13"
proof -
  have b: "0 \<le> uint w" "uint w < 65536"
    using uint16_bounds [of w] by simp_all
  have p: "12500 * (ucast w :: 32 word) = word_of_int (12500 * uint w)"
    by simp
  have s: "sint (12500 * (ucast w :: 32 word)) = 12500 * uint w"
    unfolding p using b by (intro sint32_word_of_int) linarith+
  show ?thesis
    by (simp only: sint_signed_drop_bit_eq s drop_bit_int_def)
qed

subsection \<open>Buffers and the log\<close>

lemma length_store_buf [simp]: "length (store_buf buf xs) = length buf"
  by (simp add: store_buf_def)

lemma store_buf_same_length [simp]: "length xs = length buf \<Longrightarrow> store_buf buf xs = xs"
  by (simp add: store_buf_def)

lemma store_buf_pair: "\<exists>a b. store_buf [x, y] ws = [a, b]"
proof -
  have "length (store_buf [x, y] ws) = 2"
    by simp
  then show ?thesis
    by (metis (no_types) length_0_conv length_Suc_conv numeral_2_eq_2)
qed

lemma sht3x_read_unfold:
  "sht3x_read e s addr t0 h0 =
     (let r = bus e (calls s) (Read_words addr 2);
          words = store_buf [uninit16 e (calls s) 0, uninit16 e (calls s) 1] (reply_words r)
      in (ret_code r,
          signed_drop_bit 13 (21875 * (ucast (words ! 0) :: int32_t)) - 45000,
          signed_drop_bit 13 (12500 * (ucast (words ! 1) :: int32_t)),
          log_call s (Read_words addr 2)))"
  by (simp add: sht3x_read_def sensirion_i2c_read_words_def SENSIRION_NUM_WORDS_def Let_def)

subsection \<open>What the calls leave of the static variable\<close>

lemma cmd_log_call [simp]: "sht3x_cmd_measure (log_call s c) = sht3x_cmd_measure s"
  by (simp add: log_call_def)

lemma calls_log_call [simp]: "calls (log_call s c) = calls s @ [c]"
  by (simp add: log_call_def)

lemma calls_update: "calls (s\<lparr>calls := cs\<rparr>) = cs"
  by simp

lemma cmd_write_cmd [simp]:
  "sht3x_cmd_measure (snd (sensirion_i2c_write_cmd e s addr c)) = sht3x_cmd_measure s"
  by (simp add: sensirion_i2c_write_cmd_def Let_def)

lemma cmd_sleep [simp]:
  "sht3x_cmd_measure (sensirion_sleep_usec s n) = sht3x_cmd_measure s"
  by (simp add: sensirion_sleep_usec_def)

lemma cmd_measure [simp]:
  "sht3x_cmd_measure (snd (sht3x_measure e s addr)) = sht3x_cmd_measure s"
  by (simp add: sht3x_measure_def)

lemma cmd_read [simp]:
  "sht3x_cmd_measure (snd (snd (snd (sht3x_read e s addr t h)))) = sht3x_cmd_measure s"
  by (simp add: sht3x_read_unfold Let_def)

lemma cmd_measure_blocking_read [simp]:
  "sht3x_cmd_measure (snd (snd (snd (sht3x_measure_blocking_read e s addr t h))))
     = sht3x_cmd_measure s"
  by (simp add: sht3x_measure_blocking_read_def split_beta Let_def)

lemma cmd_probe [simp]:
  "sht3x_cmd_measure (snd (sht3x_probe e s addr)) = sht3x_cmd_measure s"
  by (simp add: sht3x_probe_def sensirion_i2c_delayed_read_cmd_def Let_def)

lemma cmd_get_status [simp]:
  "sht3x_cmd_measure (snd (snd (sht3x_get_status e s addr st))) = sht3x_cmd_measure s"
  by (simp add: sht3x_get_status_def sensirion_i2c_delayed_read_cmd_def Let_def)

lemma cmd_clear_status [simp]:
  "sht3x_cmd_measure (snd (sht3x_clear_status e s addr)) = sht3x_cmd_measure s"
  by (simp add: sht3x_clear_status_def)

lemma cmd_read_serial [simp]:
  "sht3x_cmd_measure (snd (snd (sht3x_read_serial e s addr serial))) = sht3x_cmd_measure s"
  by (simp add: sht3x_read_serial_def sensirion_i2c_read_words_as_bytes_def split_beta Let_def)

lemma cmd_set_alert_thd [simp]:
  "sht3x_cmd_measure (snd (sht3x_set_alert_thd e s addr thd h t)) = sht3x_cmd_measure s"
  by (simp add: sht3x_set_alert_thd_def sensirion_i2c_write_cmd_with_args_def Let_def)

lemma cmd_get_alert_thd [simp]:
  "sht3x_cmd_measure (snd (snd (snd (sht3x_get_alert_thd e s addr thd h t))))
     = sht3x_cmd_measure s"
  by (simp add: sht3x_get_alert_thd_def sensirion_i2c_read_cmd_def split_beta Let_def)

lemma cmd_state_after:
  "\<not> sets_power_mode c \<Longrightarrow> sht3x_cmd_measure (state_after e s c) = sht3x_cmd_measure s"
  by (cases c) (simp_all add: sht3x_get_driver_version_def sht3x_get_configured_address_def)

lemma cmd_run:
  "list_all (\<lambda>c. \<not> sets_power_mode c) cs \<Longrightarrow>
   sht3x_cmd_measure (run e s cs) = sht3x_cmd_measure s"
  by (induction cs arbitrary: s) (simp_all add: cmd_state_after)

lemma valid_set_power_mode:
  "valid_cmd_measure e (sht3x_cmd_measure (sht3x_set_power_mode e s mode))"
  by (simp add: sht3x_set_power_mode_def valid_cmd_measure_def)

lemma valid_enable_low_power_mode:
  "valid_cmd_measure e (sht3x_cmd_measure (sht3x_enable_low_power_mode e s b))"
  by (simp add: sht3x_enable_low_power_mode_def valid_cmd_measure_def)

lemma valid_state_after:
  "valid_cmd_measure e (sht3x_cmd_measure s) \<Longrightarrow>
   valid_cmd_measure e (sht3x_cmd_measure (state_after e s c))"
  by (cases "sets_power_mode c")
     (auto simp: cmd_state_after valid_set_power_mode valid_enable_low_power_mode
           elim!: sets_power_mode.elims)

lemma valid_run:
  "valid_cmd_measure e (sht3x_cmd_measure s) \<Longrightarrow>
   valid_cmd_measure e (sht3x_cmd_measure (run e s cs))"
  by (induction cs arbitrary: s) (simp_all add: valid_state_after)

lemma valid_initial: "valid_cmd_measure e (sht3x_cmd_measure (initial_state e))"
  by (simp add: initial_state_def valid_cmd_measure_def)

lemma valid_cmd_measure_no_stretching:
  "\<not> USE_SENSIRION_CLOCK_STRETCHING e \<Longrightarrow>
   valid_cmd_measure e c \<longleftrightarrow> c \<in> {0x2400, 0x240B, 0x2416}"
  by (auto simp: valid_cmd_measure_def SHT3X_CMD_MEASURE_HPM_def SHT3X_CMD_MEASURE_MPM_def
      SHT3X_CMD_MEASURE_LPM_def)

subsection \<open>Reading a measurement\<close>

text \<open>
  Claim C2. When the bus delivers the two raw words \<open>rawT\<close> and \<open>rawH\<close>, \<open>sht3x_read\<close>
  stores, read as signed 32-bit values, \<open>((21875 * rawT) >> 13) - 45000\<close> through
  \<open>temperature\<close> and \<open>(12500 * rawH) >> 13\<close> through \<open>humidity\<close>; the products do not
  overflow. In particular \<open>rawT = 0\<close> gives -45000, \<open>rawT = 65535\<close> gives 129997,
  \<open>rawH = 0\<close> gives 0 and \<open>rawH = 65535\<close> gives 99998.
\<close>

theorem sht3x_read_conversion:
  assumes "reply_words (bus e (calls s) (Read_words addr 2)) = [rawT, rawH]"
  shows "\<exists>temperature humidity.
           sht3x_read e s addr t0 h0 =
             (ret_code (bus e (calls s) (Read_words addr 2)), temperature, humidity,
              log_call s (Read_words addr 2)) \<and>
           sint temperature = (21875 * uint rawT) div 2 ^ 13 - 45000 \<and>
           sint humidity = (12500 * uint rawH) div 2 ^ 13 \<and>
           (rawT = 0 \<longrightarrow> sint temperature = - 45000) \<and>
           (rawT = 65535 \<longrightarrow> sint temperature = 129997) \<and>
           (rawH = 0 \<longrightarrow> sint humidity = 0) \<and>
           (rawH = 65535 \<longrightarrow> sint humidity = 99998)"
proof -
  let ?T = "signed_drop_bit 13 (21875 * (ucast rawT :: int32_t)) - 45000"
  let ?H = "signed_drop_bit 13 (12500 * (ucast rawH :: int32_t))"
  have eq: "sht3x_read e s addr t0 h0 =
      (ret_code (bus e (calls s) (Read_words addr 2)), ?T, ?H, log_call s (Read_words addr 2))"
    using assms by (simp add: sht3x_read_unfold Let_def)
  have T: "sint ?T = (21875 * uint rawT) div 2 ^ 13 - 45000"
    by (rule temperature_conversion)
  have H: "sint ?H = (12500 * uint rawH) div 2 ^ 13"
    by (rule humidity_conversion)
  have "rawT = 0 \<longrightarrow> sint ?T = - 45000" "rawT = 65535 \<longrightarrow> sint ?T = 129997"
    unfolding T by simp_all
  moreover have "rawH = 0 \<longrightarrow> sint ?H = 0" "rawH = 65535 \<longrightarrow> sint ?H = 99998"
    unfolding H by simp_all
  ultimately show ?thesis
    using eq T H by blast
qed

theorem sht3x_read_conversion_witness:
  "reply_words (bus (const_env False 0 [65535, 65535] 0)
      (calls (initial_state (const_env False 0 [65535, 65535] 0))) (Read_words 0x44 2))
     = [65535, 65535] \<and>
   (\<exists>temperature humidity.
     sht3x_read (const_env False 0 [65535, 65535] 0)
         (initial_state (const_env False 0 [65535, 65535] 0)) 0x44 0 0 =
       (0, temperature, humidity,
        log_call (initial_state (const_env False 0 [65535, 65535] 0)) (Read_words 0x44 2)) \<and>
     sint temperature = 129997 \<and> sint humidity = 99998)"
proof -
  let ?e = "const_env False 0 [65535, 65535] 0"
  have h: "reply_words (bus ?e (calls (initial_state ?e)) (Read_words 0x44 2)) = [65535, 65535]"
    by (simp add: const_env_def)
  have rc: "ret_code (bus ?e (calls (initial_state ?e)) (Read_words 0x44 2)) = 0"
    by (simp add: const_env_def)
  show ?thesis
    using h sht3x_read_conversion [OF h, of 0 0] unfolding rc by auto
qed

text \<open>
  Claim C6. Whatever status \<open>rc\<close> the bus read returns, success or failure, \<open>sht3x_read\<close>
  returns \<open>rc\<close> and stores both outputs, computed by the fixed-point conversion from the
  two words \<open>rawT\<close>, \<open>rawH\<close> that its buffer holds after the bus call (what the bus
  stored, and the buffer's uninitialised contents where it stored nothing). The values the
  outputs held before the call, \<open>t0\<close> and \<open>h0\<close>, play no part.
\<close>

theorem sht3x_read_outputs_on_any_status:
  assumes "ret_code (bus e (calls s) (Read_words addr 2)) = rc"
  shows "\<exists>rawT rawH temperature humidity.
           store_buf [uninit16 e (calls s) 0, uninit16 e (calls s) 1]
             (reply_words (bus e (calls s) (Read_words addr 2))) = [rawT, rawH] \<and>
           sht3x_read e s addr t0 h0 = (rc, temperature, humidity, log_call s (Read_words addr 2)) \<and>
           sint temperature = (21875 * uint rawT) div 2 ^ 13 - 45000 \<and>
           sint humidity = (12500 * uint rawH) div 2 ^ 13"
proof -
  obtain rawT rawH where w: "store_buf [uninit16 e (calls s) 0, uninit16 e (calls s) 1]
      (reply_words (bus e (calls s) (Read_words addr 2))) = [rawT, rawH]"
    using store_buf_pair [of "uninit16 e (calls s) 0" "uninit16 e (calls s) 1"
        "reply_words (bus e (calls s) (Read_words addr 2))"] by auto
  have "sht3x_read e s addr t0 h0 =
      (rc, signed_drop_bit 13 (21875 * (ucast rawT :: int32_t)) - 45000,
       signed_drop_bit 13 (12500 * (ucast rawH :: int32_t)), log_call s (Read_words addr 2))"
    using assms w by (simp add: sht3x_read_unfold Let_def)
  then show ?thesis
    using w temperature_conversion [of rawT] humidity_conversion [of rawH] by blast
qed

text \<open>
  At a CRC failure of a bus that stored nothing, with 0x6666 left in the buffer, the
  outputs (0 before the call) are overwritten.
\<close>

theorem sht3x_read_outputs_on_any_status_witness:
  "ret_code (bus (const_env False STATUS_CRC_FAIL [] 0x6666)
      (calls (initial_state (const_env False STATUS_CRC_FAIL [] 0x6666))) (Read_words 0x44 2))
     = STATUS_CRC_FAIL \<and>
   (\<exists>temperature humidity.
     sht3x_read (const_env False STATUS_CRC_FAIL [] 0x6666)
         (initial_state (const_env False STATUS_CRC_FAIL [] 0x6666)) 0x44 0 0 =
       (STATUS_CRC_FAIL, temperature, humidity,
        log_call (initial_state (const_env False STATUS_CRC_FAIL [] 0x6666)) (Read_words 0x44 2)) \<and>
     sint temperature = 24998 \<and> sint humidity = 39999)"
proof -
  let ?e = "const_env False STATUS_CRC_FAIL [] 0x6666"
  have h: "ret_code (bus ?e (calls (initial_state ?e)) (Read_words 0x44 2)) = STATUS_CRC_FAIL"
    by (simp add: const_env_def)
  have w: "store_buf [uninit16 ?e (calls (initial_state ?e)) 0, uninit16 ?e (calls (initial_state ?e)) 1]
      (reply_words (bus ?e (calls (initial_state ?e)) (Read_words 0x44 2))) = [0x6666, 0x6666]"
    by (simp add: const_env_def store_buf_def)
  show ?thesis
    using h sht3x_read_outputs_on_any_status [OF h, of 0 0] unfolding w by auto
qed

subsection \<open>The status word\<close>

lemma status_flags_are_bits:
  "SHT3X_IS_ALRT_PENDING st \<longleftrightarrow> bit st 15"
  "SHT3X_IS_ALRT_RH_TRACK st \<longleftrightarrow> bit st 11"
  "SHT3X_IS_ALRT_T_TRACK st \<longleftrightarrow> bit st 10"
  "SHT3X_IS_SYSTEM_RST_DETECT st \<longleftrightarrow> bit st 4"
  "SHT3X_IS_LAST_CRC_FAIL st \<longleftrightarrow> bit st 0"
  using and_exp_eq_0_iff_not_bit [of st 15] and_exp_eq_0_iff_not_bit [of st 11]
    and_exp_eq_0_iff_not_bit [of st 10] and_exp_eq_0_iff_not_bit [of st 4]
    and_exp_eq_0_iff_not_bit [of st 0]
  by (simp_all add: SHT3X_IS_ALRT_PENDING_def SHT3X_IS_ALRT_RH_TRACK_def
      SHT3X_IS_ALRT_T_TRACK_def SHT3X_IS_SYSTEM_RST_DETECT_def SHT3X_IS_LAST_CRC_FAIL_def)

text \<open>
  Claim C7. On the status word 0x8011 the macros give: alert pending, last CRC failed and
  system reset detected are true; humidity tracking alert and temperature tracking alert
  are false. Each macro tests its mask (0x8000, 0x0800, 0x0400, 0x0010, 0x0001) on the
  16-bit word.
\<close>

theorem status_word_0x8011:
  "SHT3X_IS_ALRT_PENDING 0x8011 \<and>
   SHT3X_IS_LAST_CRC_FAIL 0x8011 \<and>
   SHT3X_IS_SYSTEM_RST_DETECT 0x8011 \<and>
   \<not> SHT3X_IS_ALRT_RH_TRACK 0x8011 \<and>
   \<not> SHT3X_IS_ALRT_T_TRACK 0x8011 \<and>
   (SHT3X_IS_ALRT_PENDING st \<longleftrightarrow> st AND 0x8000 \<noteq> 0) \<and>
   (SHT3X_IS_ALRT_RH_TRACK st \<longleftrightarrow> st AND 0x0800 \<noteq> 0) \<and>
   (SHT3X_IS_ALRT_T_TRACK st \<longleftrightarrow> st AND 0x0400 \<noteq> 0) \<and>
   (SHT3X_IS_SYSTEM_RST_DETECT st \<longleftrightarrow> st AND 0x0010 \<noteq> 0) \<and>
   (SHT3X_IS_LAST_CRC_FAIL st \<longleftrightarrow> st AND 0x0001 \<noteq> 0)"
  by (simp add: SHT3X_IS_ALRT_PENDING_def SHT3X_IS_ALRT_RH_TRACK_def
      SHT3X_IS_ALRT_T_TRACK_def SHT3X_IS_SYSTEM_RST_DETECT_def SHT3X_IS_LAST_CRC_FAIL_def)

subsection \<open>The configured address\<close>

text \<open>
  The function returns its argument converted to \<open>uint8_t\<close>: the low eight bits.
\<close>

lemma sht3x_get_configured_address_low_byte:
  "unat (fst (sht3x_get_configured_address e s addr)) = unat addr mod 256"
  by (simp add: sht3x_get_configured_address_def unsigned_ucast_eq take_bit_eq_mod)

text \<open>
  Claim C8, as amended. \<open>sht3x_get_configured_address\<close> returns exactly the address it is
  passed for every address value that fits in the eight bits of its return type \<open>uint8_t\<close>
  (the two enumerated addresses and every 7-bit bus address among them); the result does
  not depend on the driver's state or the environment, and the state is left as it was.

  It is not the identity on every value of \<open>sht3x_i2c_addr_t\<close>: a value above 0xFF comes
  back without its high bits.
\<close>

theorem sht3x_get_configured_address_identity:
  assumes "addr \<le> 0xFF"
  shows "unat (fst (sht3x_get_configured_address e s addr)) = unat addr \<and>
         fst (sht3x_get_configured_address e' s' addr) = fst (sht3x_get_configured_address e s addr) \<and>
         snd (sht3x_get_configured_address e s addr) = s"
proof -
  have "unat addr < 256"
    using assms by (simp add: word_le_nat_alt)
  then have "unat (ucast addr :: uint8_t) = unat addr"
    by (simp add: unsigned_ucast_eq take_bit_nat_eq_self)
  then show ?thesis
    by (simp add: sht3x_get_configured_address_def)
qed

theorem sht3x_get_configured_address_identity_witness:
  "SHT3X_I2C_ADDR_ALT \<le> 0xFF \<and>
   unat (fst (sht3x_get_configured_address (const_env False 0 [] 0)
         (initial_state (const_env False 0 [] 0)) SHT3X_I2C_ADDR_ALT)) = 0x45 \<and>
   snd (sht3x_get_configured_address (const_env False 0 [] 0)
         (initial_state (const_env False 0 [] 0)) SHT3X_I2C_ADDR_ALT)
     = initial_state (const_env False 0 [] 0)"
proof -
  have h: "SHT3X_I2C_ADDR_ALT \<le> 0xFF"
    by (simp add: SHT3X_I2C_ADDR_ALT_def)
  have v: "unat SHT3X_I2C_ADDR_ALT = 0x45"
    by (simp add: SHT3X_I2C_ADDR_ALT_def)
  show ?thesis
    using h sht3x_get_configured_address_identity [OF h] unfolding v by simp
qed

text \<open>
  Passed 0x144, the function returns 0x44, in any state: not the value it was passed.
\<close>

theorem sht3x_get_configured_address_identity_counterexample:
  "fst (sht3x_get_configured_address (const_env False 0 [] 0)
         (initial_state (const_env False 0 [] 0)) 0x144) = 0x44 \<and>
   unat (fst (sht3x_get_configured_address (const_env False 0 [] 0)
         (initial_state (const_env False 0 [] 0)) 0x144))
     \<noteq> unat (0x144 :: sht3x_i2c_addr_t)"
  by (simp add: sht3x_get_configured_address_def)

subsection \<open>The measurement command selector\<close>

lemma stretching_const_env [simp]:
  "USE_SENSIRION_CLOCK_STRETCHING (const_env b rc ws junk) = b"
  by (simp add: const_env_def)


text \<open>
  Claim C9. In the build without clock stretching the static variable \<open>sht3x_cmd_measure\<close>
  always holds one of the three measurement commands 0x2400, 0x240B, 0x2416: it starts as
  the high-precision command 0x2400; after any sequence of calls of the driver's public
  functions from the start it is one of the three; and \<open>sht3x_set_power_mode\<close> and
  \<open>sht3x_enable_low_power_mode\<close> leave one of the three in it whatever the state and the
  argument. A mode that is none of the three enumerators selects high precision; the
  function returns nothing, so no error is reported.
\<close>

theorem cmd_measure_invariant:
  assumes "\<not> USE_SENSIRION_CLOCK_STRETCHING e"
  shows "sht3x_cmd_measure (initial_state e) = 0x2400 \<and>
         sht3x_cmd_measure (run e (initial_state e) cs) \<in> {0x2400, 0x240B, 0x2416} \<and>
         sht3x_cmd_measure (sht3x_set_power_mode e s mode) \<in> {0x2400, 0x240B, 0x2416} \<and>
         sht3x_cmd_measure (sht3x_enable_low_power_mode e s b) \<in> {0x2400, 0x240B, 0x2416} \<and>
         (mode \<notin> {SHT3X_MEAS_MODE_LPM, SHT3X_MEAS_MODE_MPM, SHT3X_MEAS_MODE_HPM} \<longrightarrow>
            sht3x_cmd_measure (sht3x_set_power_mode e s mode) = 0x2400)"
proof -
  have 1: "sht3x_cmd_measure (initial_state e) = 0x2400"
    using assms by (simp add: initial_state_def SHT3X_CMD_MEASURE_HPM_def)
  have 2: "sht3x_cmd_measure (run e (initial_state e) cs) \<in> {0x2400, 0x240B, 0x2416}"
    using valid_run [OF valid_initial, of e cs] valid_cmd_measure_no_stretching [OF assms]
    by blast
  have 3: "sht3x_cmd_measure (sht3x_set_power_mode e s mode) \<in> {0x2400, 0x240B, 0x2416}"
    using valid_set_power_mode [of e s mode] valid_cmd_measure_no_stretching [OF assms]
    by blast
  have 4: "sht3x_cmd_measure (sht3x_enable_low_power_mode e s b) \<in> {0x2400, 0x240B, 0x2416}"
    using valid_enable_low_power_mode [of e s b] valid_cmd_measure_no_stretching [OF assms]
    by blast
  have 5: "mode \<notin> {SHT3X_MEAS_MODE_LPM, SHT3X_MEAS_MODE_MPM, SHT3X_MEAS_MODE_HPM} \<longrightarrow>
            sht3x_cmd_measure (sht3x_set_power_mode e s mode) = 0x2400"
    using assms by (simp add: sht3x_set_power_mode_def SHT3X_CMD_MEASURE_HPM_def)
  from 1 2 3 4 5 show ?thesis by blast
qed


theorem cmd_measure_invariant_witness:
  "\<not> USE_SENSIRION_CLOCK_STRETCHING (const_env False 0 [] 0) \<and>
   (7 :: sht3x_measurement_mode_t) \<notin> {SHT3X_MEAS_MODE_LPM, SHT3X_MEAS_MODE_MPM, SHT3X_MEAS_MODE_HPM} \<and>
   sht3x_cmd_measure (run (const_env False 0 [] 0) (initial_state (const_env False 0 [] 0))
      [Set_power_mode SHT3X_MEAS_MODE_MPM, Measure 0x44, Enable_low_power_mode 1, Set_power_mode 7])
     \<in> {0x2400, 0x240B, 0x2416} \<and>
   sht3x_cmd_measure (sht3x_set_power_mode (const_env False 0 [] 0)
      (sht3x_enable_low_power_mode (const_env False 0 [] 0) (initial_state (const_env False 0 [] 0)) 1) 7)
     = 0x2400"
proof -
  have h: "\<not> USE_SENSIRION_CLOCK_STRETCHING (const_env False 0 [] 0)"
    by simp
  have m: "(7 :: sht3x_measurement_mode_t) \<notin> {SHT3X_MEAS_MODE_LPM, SHT3X_MEAS_MODE_MPM, SHT3X_MEAS_MODE_HPM}"
    by (simp add: SHT3X_MEAS_MODE_LPM_def SHT3X_MEAS_MODE_MPM_def SHT3X_MEAS_MODE_HPM_def)
  show ?thesis
    using h m cmd_measure_invariant [OF h,
      of "[Set_power_mode SHT3X_MEAS_MODE_MPM, Measure 0x44, Enable_low_power_mode 1, Set_power_mode 7]"
         "sht3x_enable_low_power_mode (const_env False 0 [] 0) (initial_state (const_env False 0 [] 0)) 1"
         7 0]
    by blast
qed


text \<open>
  Claim C3. In the build without clock stretching, after
  \<open>sht3x_set_power_mode(SHT3X_MEAS_MODE_LPM)\<close> the next \<open>sht3x_measure\<close> sends the command
  0x2416, and after \<open>sht3x_enable_low_power_mode(0)\<close> it sends 0x2400, whatever address
  it is passed and whatever calls that do not set the mode were made in between.
\<close>

theorem measure_command_follows_mode:
  assumes "\<not> USE_SENSIRION_CLOCK_STRETCHING e"
    and "list_all (\<lambda>c. \<not> sets_power_mode c) cs"
    and "s1 = run e (sht3x_set_power_mode e s SHT3X_MEAS_MODE_LPM) cs"
    and "s2 = run e (sht3x_enable_low_power_mode e s 0) cs"
  shows "sht3x_measure e s1 addr =
           (ret_code (bus e (calls s1) (Write_cmd addr 0x2416)),
            s1\<lparr>calls := calls s1 @ [Write_cmd addr 0x2416]\<rparr>) \<and>
         sht3x_measure e s2 addr =
           (ret_code (bus e (calls s2) (Write_cmd addr 0x2400)),
            s2\<lparr>calls := calls s2 @ [Write_cmd addr 0x2400]\<rparr>)"
proof -
  have "sht3x_cmd_measure s1 = 0x2416"
    using assms(1,2,3) by (simp add: cmd_run sht3x_set_power_mode_def SHT3X_CMD_MEASURE_LPM_def)
  moreover have "sht3x_cmd_measure s2 = 0x2400"
    using assms(1,2,4)
    by (simp add: cmd_run sht3x_enable_low_power_mode_def SHT3X_CMD_MEASURE_HPM_def)
  ultimately show ?thesis
    by (simp add: sht3x_measure_def sensirion_i2c_write_cmd_def log_call_def Let_def)
qed


theorem measure_command_follows_mode_witness:
  "\<not> USE_SENSIRION_CLOCK_STRETCHING (const_env False 0 [] 0) \<and>
   list_all (\<lambda>c. \<not> sets_power_mode c) [Clear_status 0x45] \<and>
   calls (snd (sht3x_measure (const_env False 0 [] 0)
      (run (const_env False 0 [] 0)
         (sht3x_set_power_mode (const_env False 0 [] 0) (initial_state (const_env False 0 [] 0))
            SHT3X_MEAS_MODE_LPM) [Clear_status 0x45]) 0x44))
     = [Write_cmd 0x45 0x3041, Write_cmd 0x44 0x2416] \<and>
   calls (snd (sht3x_measure (const_env False 0 [] 0)
      (run (const_env False 0 [] 0)
         (sht3x_enable_low_power_mode (const_env False 0 [] 0) (initial_state (const_env False 0 [] 0))
            0) [Clear_status 0x45]) 0x44))
     = [Write_cmd 0x45 0x3041, Write_cmd 0x44 0x2400]"
proof -
  let ?e = "const_env False 0 [] 0"
  have h: "\<not> USE_SENSIRION_CLOCK_STRETCHING ?e"
    by simp
  have l: "list_all (\<lambda>c. \<not> sets_power_mode c) [Clear_status 0x45]"
    by simp
  have c1: "calls (run ?e (sht3x_set_power_mode ?e (initial_state ?e) SHT3X_MEAS_MODE_LPM)
      [Clear_status 0x45]) = [Write_cmd 0x45 0x3041]"
    by (simp add: sht3x_clear_status_def sensirion_i2c_write_cmd_def Let_def
        sht3x_set_power_mode_def initial_state_def SHT3X_CMD_CLR_STATUS_REG_def)
  have c2: "calls (run ?e (sht3x_enable_low_power_mode ?e (initial_state ?e) 0)
      [Clear_status 0x45]) = [Write_cmd 0x45 0x3041]"
    by (simp add: sht3x_clear_status_def sensirion_i2c_write_cmd_def Let_def
        sht3x_enable_low_power_mode_def initial_state_def SHT3X_CMD_CLR_STATUS_REG_def)
  let ?s1 = "run ?e (sht3x_set_power_mode ?e (initial_state ?e) SHT3X_MEAS_MODE_LPM)
      [Clear_status 0x45]"
  let ?s2 = "run ?e (sht3x_enable_low_power_mode ?e (initial_state ?e) 0) [Clear_status 0x45]"
  note t = measure_command_follows_mode [OF h l refl refl,
        of "initial_state (const_env False 0 [] 0)" "0x44"]
  have m1: "calls (snd (sht3x_measure ?e ?s1 0x44)) = calls ?s1 @ [Write_cmd 0x44 0x2416]"
    by (simp only: conjunct1 [OF t] snd_conv calls_update)
  have m2: "calls (snd (sht3x_measure ?e ?s2 0x44)) = calls ?s2 @ [Write_cmd 0x44 0x2400]"
    by (simp only: conjunct2 [OF t] snd_conv calls_update)
  show ?thesis
    using h l by (simp only: m1 m2 c1 c2 append.simps simp_thms)
qed

subsection \<open>Compound operations\<close>

text \<open>
  Claim C4. When the first command write returns a code \<open>rc\<close> other than \<open>STATUS_OK\<close>,
  \<open>sht3x_measure_blocking_read\<close> returns \<open>rc\<close>, leaves its outputs as they were and makes
  no further call: the log grows by the one write, with neither the delay nor the read.
  Likewise \<open>sht3x_read_serial\<close> returns the code \<open>rc'\<close> of its failed write and makes no
  read: the log grows by the write and the delay that follows it in the source.
\<close>

theorem compound_operations_short_circuit:
  "(ret_code (bus e (calls s) (Write_cmd addr (sht3x_cmd_measure s))) = rc \<and> rc \<noteq> STATUS_OK \<longrightarrow>
      sht3x_measure_blocking_read e s addr t0 h0 =
        (rc, t0, h0, s\<lparr>calls := calls s @ [Write_cmd addr (sht3x_cmd_measure s)]\<rparr>)) \<and>
   (ret_code (bus e (calls s) (Write_cmd addr SHT3X_CMD_READ_SERIAL_ID)) = rc' \<and> rc' \<noteq> STATUS_OK \<longrightarrow>
      sht3x_read_serial e s addr serial0 =
        (rc', serial0,
         s\<lparr>calls := calls s @ [Write_cmd addr SHT3X_CMD_READ_SERIAL_ID, Sleep_usec 1000]\<rparr>))"
  by (simp add: sht3x_measure_blocking_read_def sht3x_measure_def sht3x_read_serial_def
      sensirion_i2c_write_cmd_def sensirion_sleep_usec_def log_call_def Let_def
      SHT3X_CMD_DURATION_USEC_def)

theorem compound_operations_short_circuit_witness:
  "ret_code (bus (const_env False STATUS_ERR_BAD_DATA [] 0) [] (Write_cmd 0x44 0x2400)) = STATUS_ERR_BAD_DATA \<and>
   STATUS_ERR_BAD_DATA \<noteq> STATUS_OK \<and>
   sht3x_measure_blocking_read (const_env False STATUS_ERR_BAD_DATA [] 0)
       (initial_state (const_env False STATUS_ERR_BAD_DATA [] 0)) 0x44 11 22 =
     (STATUS_ERR_BAD_DATA, 11, 22, \<lparr>sht3x_cmd_measure = 0x2400, calls = [Write_cmd 0x44 0x2400]\<rparr>) \<and>
   sht3x_read_serial (const_env False STATUS_ERR_BAD_DATA [] 0)
       (initial_state (const_env False STATUS_ERR_BAD_DATA [] 0)) 0x44 33 =
     (STATUS_ERR_BAD_DATA, 33,
      \<lparr>sht3x_cmd_measure = 0x2400, calls = [Write_cmd 0x44 0x3780, Sleep_usec 1000]\<rparr>)"
proof -
  let ?e = "const_env False STATUS_ERR_BAD_DATA [] 0"
  have s0: "initial_state ?e = \<lparr>sht3x_cmd_measure = 0x2400, calls = []\<rparr>"
    by (simp add: initial_state_def SHT3X_CMD_MEASURE_HPM_def)
  have r: "ret_code (bus ?e cs c) = STATUS_ERR_BAD_DATA" for cs c
    by (simp add: const_env_def)
  have n: "STATUS_ERR_BAD_DATA \<noteq> STATUS_OK"
    by (simp add: STATUS_ERR_BAD_DATA_def STATUS_OK_def)
  show ?thesis
    using n compound_operations_short_circuit [of "const_env False STATUS_ERR_BAD_DATA [] 0"
        "initial_state (const_env False STATUS_ERR_BAD_DATA [] 0)" "0x44" STATUS_ERR_BAD_DATA
        11 22 STATUS_ERR_BAD_DATA 33]
    by (simp add: r s0 SHT3X_CMD_READ_SERIAL_ID_def)
qed

text \<open>
  Claim C10. When the write of the serial-ID command fails, \<open>sht3x_read_serial\<close> leaves
  \<open>*serial\<close> as it was, still sleeps the fixed 1000 microseconds after the write, and
  returns the write's code. Only when the write succeeds does it store through \<open>serial\<close>:
  the 32-bit value the byte helper makes of the four bytes read.
\<close>

theorem read_serial_failed_write:
  "(ret_code (bus e (calls s) (Write_cmd addr SHT3X_CMD_READ_SERIAL_ID)) \<noteq> STATUS_OK \<longrightarrow>
      fst (snd (sht3x_read_serial e s addr serial)) = serial \<and>
      calls (snd (snd (sht3x_read_serial e s addr serial)))
        = calls s @ [Write_cmd addr SHT3X_CMD_READ_SERIAL_ID, Sleep_usec 1000] \<and>
      fst (sht3x_read_serial e s addr serial)
        = ret_code (bus e (calls s) (Write_cmd addr SHT3X_CMD_READ_SERIAL_ID))) \<and>
   (ret_code (bus e (calls s) (Write_cmd addr SHT3X_CMD_READ_SERIAL_ID)) = STATUS_OK \<longrightarrow>
      fst (snd (sht3x_read_serial e s addr serial))
        = sensirion_bytes_to_uint32_t e
            (store_buf (map (uninit8 e (calls s)) [0, 1, 2, 3])
               (reply_bytes (bus e
                  (calls s @ [Write_cmd addr SHT3X_CMD_READ_SERIAL_ID, Sleep_usec 1000])
                  (Read_words_as_bytes addr 2)))))"
  by (simp add: sht3x_read_serial_def sensirion_i2c_write_cmd_def sensirion_sleep_usec_def
      sensirion_i2c_read_words_as_bytes_def SENSIRION_NUM_WORDS_def
      log_call_def Let_def SHT3X_CMD_DURATION_USEC_def)

theorem read_serial_failed_write_witness:
  "ret_code (bus (const_env False STATUS_CRC_FAIL [0x1234, 0x5678] 0) [] (Write_cmd 0x44 0x3780)) \<noteq> STATUS_OK \<and>
   sht3x_read_serial (const_env False STATUS_CRC_FAIL [0x1234, 0x5678] 0)
       \<lparr>sht3x_cmd_measure = 0x2400, calls = []\<rparr> 0x44 0xABCD =
     (STATUS_CRC_FAIL, 0xABCD,
      \<lparr>sht3x_cmd_measure = 0x2400, calls = [Write_cmd 0x44 0x3780, Sleep_usec 1000]\<rparr>) \<and>
   ret_code (bus (const_env False STATUS_OK [0x1234, 0x5678] 0) [] (Write_cmd 0x44 0x3780)) = STATUS_OK \<and>
   fst (snd (sht3x_read_serial (const_env False STATUS_OK [0x1234, 0x5678] 0)
       \<lparr>sht3x_cmd_measure = 0x2400, calls = []\<rparr> 0x44 0xABCD)) = 0x12345678"
proof -
  let ?e = "const_env False STATUS_CRC_FAIL [0x1234, 0x5678] 0"
  let ?e' = "const_env False STATUS_OK [0x1234, 0x5678] 0"
  let ?s = "\<lparr>sht3x_cmd_measure = 0x2400, calls = []\<rparr>"
  have h: "ret_code (bus ?e (calls ?s) (Write_cmd 0x44 SHT3X_CMD_READ_SERIAL_ID)) \<noteq> STATUS_OK"
    by (simp add: const_env_def STATUS_CRC_FAIL_def STATUS_OK_def)
  have h': "ret_code (bus ?e' (calls ?s) (Write_cmd 0x44 SHT3X_CMD_READ_SERIAL_ID)) = STATUS_OK"
    by (simp add: const_env_def)
  have r: "ret_code (bus ?e cs c) = STATUS_CRC_FAIL" "ret_code (bus ?e' cs c) = STATUS_OK" for cs c
    by (simp_all add: const_env_def)
  have b: "sensirion_bytes_to_uint32_t ?e' (store_buf (map (uninit8 ?e' (calls ?s)) [0, 1, 2, 3])
      (reply_bytes (bus ?e' (calls ?s @ [Write_cmd 0x44 SHT3X_CMD_READ_SERIAL_ID, Sleep_usec 1000])
         (Read_words_as_bytes 0x44 2)))) = 0x12345678"
    by (simp add: const_env_def bytes_be_def)
  have c: "sht3x_cmd_measure (snd (snd (sht3x_read_serial ?e ?s 0x44 0xABCD))) = 0x2400"
    by simp
  obtain x y st where eq: "sht3x_read_serial ?e ?s 0x44 0xABCD = (x, y, st)"
    by (cases "sht3x_read_serial ?e ?s 0x44 0xABCD") auto
  have 1: "sht3x_read_serial ?e ?s 0x44 0xABCD =
     (STATUS_CRC_FAIL, 0xABCD,
      \<lparr>sht3x_cmd_measure = 0x2400, calls = [Write_cmd 0x44 0x3780, Sleep_usec 1000]\<rparr>)"
    using h c read_serial_failed_write [of "const_env False STATUS_CRC_FAIL [0x1234, 0x5678] 0"
        "\<lparr>sht3x_cmd_measure = 0x2400, calls = []\<rparr>" "0x44" "0xABCD"] unfolding eq
    by (simp add: r SHT3X_CMD_READ_SERIAL_ID_def)
  have 2: "fst (snd (sht3x_read_serial ?e' ?s 0x44 0xABCD)) = 0x12345678"
    using h' read_serial_failed_write [of "const_env False STATUS_OK [0x1234, 0x5678] 0"
        "\<lparr>sht3x_cmd_measure = 0x2400, calls = []\<rparr>" "0x44" "0xABCD"] unfolding b by blast
  show ?thesis
    using h h' 1 2 by (simp add: SHT3X_CMD_READ_SERIAL_ID_def)
qed

subsection \<open>Alert thresholds: an invalid slot\<close>

text \<open>
  Claim C5. For a slot that is none of the four enumerators, \<open>sht3x_set_alert_thd\<close> and
  \<open>sht3x_get_alert_thd\<close> return \<open>STATUS_ERR_INVALID_PARAMS\<close> (-4) and make no bus call
  (the state, and with it the log, is unchanged). \<open>sht3x_get_alert_thd\<close> nonetheless
  stores both outputs: the conversions of its uninitialised local \<open>word\<close>, whatever the
  outputs held before.
\<close>

theorem alert_thd_invalid_slot:
  assumes "thd \<notin> {SHT3X_HIALRT_SET, SHT3X_HIALRT_CLR, SHT3X_LOALRT_CLR, SHT3X_LOALRT_SET}"
  shows "sht3x_set_alert_thd e s addr thd humidity temperature = (STATUS_ERR_INVALID_PARAMS, s) \<and>
         sht3x_get_alert_thd e s addr thd h0 t0 =
           (STATUS_ERR_INVALID_PARAMS,
            alert_thd_humidity (uninit16 e (calls s) 0),
            alert_thd_temperature (uninit16 e (calls s) 0), s) \<and>
         sint STATUS_ERR_INVALID_PARAMS = - 4"
  using assms
  by (simp add: sht3x_set_alert_thd_def sht3x_get_alert_thd_def Let_def
      STATUS_ERR_INVALID_PARAMS_def)


theorem alert_thd_invalid_slot_witness:
  "(4 :: sht3x_alert_thd_t) \<notin> {SHT3X_HIALRT_SET, SHT3X_HIALRT_CLR, SHT3X_LOALRT_CLR, SHT3X_LOALRT_SET} \<and>
   sht3x_set_alert_thd (const_env False 0 [] 0xFFFF) \<lparr>sht3x_cmd_measure = 0x2400, calls = []\<rparr>
       0x44 4 500 250 =
     (STATUS_ERR_INVALID_PARAMS, \<lparr>sht3x_cmd_measure = 0x2400, calls = []\<rparr>) \<and>
   sht3x_get_alert_thd (const_env False 0 [] 0xFFFF) \<lparr>sht3x_cmd_measure = 0x2400, calls = []\<rparr>
       0x44 4 0 0 =
     (STATUS_ERR_INVALID_PARAMS, 992, 1296, \<lparr>sht3x_cmd_measure = 0x2400, calls = []\<rparr>)"
proof -
  let ?e = "const_env False 0 [] 0xFFFF"
  let ?s = "\<lparr>sht3x_cmd_measure = 0x2400, calls = []\<rparr>"
  have h: "(4 :: sht3x_alert_thd_t) \<notin>
      {SHT3X_HIALRT_SET, SHT3X_HIALRT_CLR, SHT3X_LOALRT_CLR, SHT3X_LOALRT_SET}"
    by (simp add: SHT3X_HIALRT_SET_def SHT3X_HIALRT_CLR_def SHT3X_LOALRT_CLR_def
        SHT3X_LOALRT_SET_def)
  have u: "uninit16 ?e (calls ?s) 0 = 0xFFFF"
    by (simp add: const_env_def)
  have d1: "alert_thd_humidity 0xFFFF = 992"
    by (simp add: alert_thd_humidity_def int32_div_def SHT3X_HUMIDITY_LIMIT_MSK_def Let_def
        signed_divide_int_def)
  have d2: "alert_thd_temperature 0xFFFF = 1296"
    by (simp add: alert_thd_temperature_def int32_div_def SHT3X_TEMPERATURE_LIMIT_MSK_def
        Let_def signed_divide_int_def)
  show ?thesis
    using h alert_thd_invalid_slot [OF h, of "const_env False 0 [] 0xFFFF"
        "\<lparr>sht3x_cmd_measure = 0x2400, calls = []\<rparr>" "0x44" 500 250 0 0] unfolding u d1 d2
    by blast
qed

subsection \<open>Alert thresholds: the round trip\<close>

text \<open>Words and the integers they stand for.\<close>

lemma uint32_word_of_int:
  "0 \<le> k \<Longrightarrow> k < 4294967296 \<Longrightarrow> uint (word_of_int k :: 32 word) = k"
  by (simp add: uint_word_of_int_eq take_bit_int_eq_self)

lemma uint16_word_of_int:
  "0 \<le> k \<Longrightarrow> k < 65536 \<Longrightarrow> uint (word_of_int k :: 16 word) = k"
  by (simp add: uint_word_of_int_eq take_bit_int_eq_self)

lemma sint16_word_of_int:
  "- 32768 \<le> k \<Longrightarrow> k < 32768 \<Longrightarrow> sint (word_of_int k :: 16 word) = k"
  by (simp add: sint_sbintrunc' signed_take_bit_int_eq_self)

lemma ucast_32_16_word_of_int:
  "(ucast (word_of_int k :: 32 word) :: 16 word) = word_of_int k"
  by (rule bit_word_eqI) (simp add: bit_simps)

lemma msk_hi: "(0xFE00 :: 16 word) = NOT (mask 9)"
  by (simp add: mask_eq_exp_minus_1)

lemma msk_lo: "(0x01FF :: 16 word) = mask 9"
  by (simp add: mask_eq_exp_minus_1)

lemma fields_disjoint1: "((a AND 0xFE00) OR (b AND 0x01FF)) AND 0xFE00 = (a :: 16 word) AND 0xFE00"
  unfolding msk_hi msk_lo by (rule bit_word_eqI) (auto simp: bit_simps)

lemma fields_disjoint2: "((a AND 0xFE00) OR (b AND 0x01FF)) AND 0x01FF = (b :: 16 word) AND 0x01FF"
  unfolding msk_hi msk_lo by (rule bit_word_eqI) (auto simp: bit_simps)

lemma mask_split16:
  "(w AND 0xFE00) + (w AND 0x01FF) = (w :: 16 word)"
proof -
  have "(w AND NOT (mask 9)) + (w AND mask 9) = (w AND NOT (mask 9)) OR (w AND mask 9)"
    by (rule disjunctive_add) (auto simp: bit_simps)
  also have "\<dots> = w"
    by (rule bit_word_eqI) (auto simp: bit_simps)
  finally show ?thesis
    unfolding msk_hi msk_lo .
qed

lemma uint_and_low: "uint ((w :: 16 word) AND 0x01FF) = uint w mod 512"
proof -
  have "w AND mask 9 = take_bit 9 w"
    by (simp only: take_bit_eq_mask)
  moreover have "uint (take_bit 9 w) = take_bit 9 (uint w)"
    by (simp add: unsigned_take_bit_eq)
  moreover have "take_bit 9 (uint w) = uint w mod 512"
    by (simp add: take_bit_eq_mod)
  ultimately show ?thesis
    unfolding msk_lo by simp
qed

lemma uint_and_high: "uint ((w :: 16 word) AND 0xFE00) = uint w - uint w mod 512"
proof -
  have hi: "uint (w AND 0xFE00) \<le> 65024"
    using word_and_le1 [of w "0xFE00"] by (simp add: word_le_def)
  have lo: "uint (w AND 0x01FF) = uint w mod 512"
    by (rule uint_and_low)
  have "uint ((w AND 0xFE00) + (w AND 0x01FF)) = uint w"
    by (simp only: mask_split16)
  moreover have "uint ((w AND 0xFE00) + (w AND 0x01FF))
      = (uint (w AND 0xFE00) + uint (w AND 0x01FF)) mod 65536"
    by (simp add: uint_word_ariths)
  moreover have "(uint (w AND 0xFE00) + uint (w AND 0x01FF)) mod 65536
      = uint (w AND 0xFE00) + uint (w AND 0x01FF)"
    using hi unfolding lo by (intro mod_pos_pos_trivial) simp_all
  ultimately show ?thesis
    unfolding lo by linarith
qed

lemma ucast_and_32: "(ucast (w :: 16 word) :: 32 word) AND 0xFE00 = ucast (w AND 0xFE00)"
  by (simp add: unsigned_and_eq)

lemma ucast_and_32b: "(ucast (w :: 16 word) :: 32 word) AND 0x01FF = ucast (w AND 0x01FF)"
  by (simp add: unsigned_and_eq)

lemma ucast_back: "(ucast (ucast (a :: 16 word) :: 32 word) :: 16 word) = a"
  by (rule bit_word_eqI) (auto simp: bit_simps)

lemma ucast_or_back: "(ucast ((ucast (a :: 16 word) :: 32 word) OR ucast (b :: 16 word)) :: 16 word) = a OR b"
  by (rule bit_word_eqI) (auto simp: bit_simps)


lemma times_65535:
  "push_bit 16 (word_of_int k :: 32 word) - word_of_int k = word_of_int (65535 * k)"
  by (simp add: push_bit_eq_mult)

lemma humidity_field:
  assumes "uint h \<le> 1000"
  shows "uint (ucast ((push_bit 16 (ucast (h :: 16 word)) - ucast h :: 32 word) div 1000) :: 16 word)
           = (65535 * uint h) div 1000"
proof -
  let ?k = "65535 * uint h"
  have b: "0 \<le> ?k" "?k \<le> 65535000"
    using assms by simp_all
  have "push_bit 16 (ucast h :: 32 word) - ucast h = word_of_int ?k"
    using times_65535 [of "uint h"] by simp
  moreover have "uint (word_of_int ?k :: 32 word) = ?k"
    using b by (intro uint32_word_of_int) linarith+
  ultimately have "uint ((push_bit 16 (ucast h) - ucast h :: 32 word) div 1000) = ?k div 1000"
    by (simp add: uint_div)
  then have w: "(push_bit 16 (ucast h) - ucast h :: 32 word) div 1000 = word_of_int (?k div 1000)"
    by (metis word_of_int_uint)
  have r: "0 \<le> ?k div 1000" "?k div 1000 < 65536"
    using b by (simp_all add: pos_imp_zdiv_nonneg_iff)
  show ?thesis
    unfolding w ucast_32_16_word_of_int using r by (intro uint16_word_of_int) linarith+
qed

lemma temperature_field:
  assumes "- 450 \<le> sint t" and "sint t \<le> 1300"
  shows "uint (ucast (drop_bit 7 ((push_bit 16 (scast (t :: 16 word) + 450) - (scast t + 450) :: 32 word) div 1750)) :: 16 word)
           = ((65535 * (sint t + 450)) div 1750) div 128"
proof -
  let ?u = "sint t + 450"
  let ?k = "65535 * ?u"
  have b: "0 \<le> ?k" "?k \<le> 114686250"
    using assms by simp_all
  have c: "(scast t + 450 :: 32 word) = word_of_int ?u"
    by simp
  have "push_bit 16 (scast t + 450 :: 32 word) - (scast t + 450) = word_of_int ?k"
    unfolding c by (rule times_65535)
  moreover have "uint (word_of_int ?k :: 32 word) = ?k"
    using b by (intro uint32_word_of_int) linarith+
  ultimately have "uint ((push_bit 16 (scast t + 450) - (scast t + 450) :: 32 word) div 1750)
      = ?k div 1750"
    by (simp add: uint_div)
  then have "uint (drop_bit 7 ((push_bit 16 (scast t + 450) - (scast t + 450) :: 32 word) div 1750))
      = ?k div 1750 div 128"
    by (simp only: drop_bit_eq_div uint_div) simp
  then have w: "drop_bit 7 ((push_bit 16 (scast t + 450) - (scast t + 450) :: 32 word) div 1750)
      = word_of_int (?k div 1750 div 128)"
    by (metis word_of_int_uint)
  have r: "0 \<le> ?k div 1750 div 128" "?k div 1750 div 128 < 65536"
    using b by (simp_all add: pos_imp_zdiv_nonneg_iff)
  show ?thesis
    unfolding w ucast_32_16_word_of_int using r by (intro uint16_word_of_int) linarith+
qed

lemma limitVal_fields:
  "alert_thd_limitVal humidity temperature =
     ((ucast ((push_bit 16 (ucast humidity) - ucast humidity :: 32 word) div 1000) :: 16 word) AND 0xFE00)
     OR ((ucast (drop_bit 7 ((push_bit 16 (scast temperature + 450) - (scast temperature + 450) :: 32 word) div 1750)) :: 16 word) AND 0x01FF)"
  by (simp only: alert_thd_limitVal_def Let_def SHT3X_HUMIDITY_LIMIT_MSK_def
      SHT3X_TEMPERATURE_LIMIT_MSK_def ucast_and_32 ucast_and_32b ucast_back ucast_or_back)

lemma int32_div_nonneg:
  assumes "0 \<le> k" and "k < 2147483648"
  shows "int32_div (word_of_int k) 65535 = word_of_int (k div 65535)"
proof -
  have "sint (word_of_int k :: 32 word) = k"
    using assms by (intro sint32_word_of_int) linarith+
  moreover have "sint (65535 :: 32 word) = 65535"
    by simp
  moreover have "k sdiv 65535 = k div 65535"
    using assms by (simp add: signed_divide_int_def sgn_if)
  ultimately show ?thesis
    by (simp add: int32_div_def)
qed

lemma decode_humidity:
  "uint (alert_thd_humidity w) = (1000 * uint (w AND 0xFE00)) div 65535"
proof -
  let ?v = "w AND 0xFE00"
  have v: "0 \<le> uint ?v" "uint ?v \<le> 65024"
    using word_and_le1 [of w "0xFE00"] by (simp_all add: word_le_def)
  have m: "1000 * (ucast ?v :: 32 word) = word_of_int (1000 * uint ?v)"
    by simp
  have d: "int32_div (1000 * (ucast ?v :: 32 word)) 65535 = word_of_int ((1000 * uint ?v) div 65535)"
    unfolding m using v by (intro int32_div_nonneg) linarith+
  have r: "0 \<le> (1000 * uint ?v) div 65535" "(1000 * uint ?v) div 65535 < 65536"
    using v by (simp_all add: pos_imp_zdiv_nonneg_iff)
  have "alert_thd_humidity w = ucast (int32_div (1000 * (ucast ?v :: 32 word)) 65535)"
    by (simp add: alert_thd_humidity_def Let_def SHT3X_HUMIDITY_LIMIT_MSK_def ucast_and_32)
  then show ?thesis
    unfolding d ucast_32_16_word_of_int using r by (simp add: uint16_word_of_int)
qed

lemma decode_temperature:
  "sint (alert_thd_temperature w) = (uint (w AND 0x01FF) * 128 * 1750) div 65535 - 450"
proof -
  let ?v = "w AND 0x01FF"
  have v: "0 \<le> uint ?v" "uint ?v \<le> 511"
    using word_and_le1 [of w "0x01FF"] by (simp_all add: word_le_def)
  have m: "push_bit 7 (ucast ?v :: 32 word) * 1750 = word_of_int (uint ?v * 128 * 1750)"
    by (simp add: push_bit_eq_mult)
  have d: "int32_div (push_bit 7 (ucast ?v :: 32 word) * 1750) 65535
      = word_of_int ((uint ?v * 128 * 1750) div 65535)"
    unfolding m using v by (intro int32_div_nonneg) linarith+
  have r: "0 \<le> (uint ?v * 128 * 1750) div 65535" "(uint ?v * 128 * 1750) div 65535 < 2000"
    using v by (simp_all add: pos_imp_zdiv_nonneg_iff)
  have "alert_thd_temperature w
      = ucast (int32_div (push_bit 7 (ucast ?v :: 32 word) * 1750) 65535 - 450)"
    by (simp add: alert_thd_temperature_def Let_def SHT3X_TEMPERATURE_LIMIT_MSK_def ucast_and_32b)
  also have "\<dots> = ucast (word_of_int ((uint ?v * 128 * 1750) div 65535 - 450) :: 32 word)"
    unfolding d by simp
  also have "\<dots> = word_of_int ((uint ?v * 128 * 1750) div 65535 - 450)"
    by (rule ucast_32_16_word_of_int)
  finally have eq: "alert_thd_temperature w
      = word_of_int ((uint ?v * 128 * 1750) div 65535 - 450)" .
  show ?thesis
    unfolding eq using r by (intro sint16_word_of_int) linarith+
qed


lemma quantize_humidity:
  fixes h :: int
  assumes "0 \<le> h" and "h \<le> 1000"
    and x: "x = (65535 * h) div 1000"
    and m: "m = x - x mod 512"
    and d: "d = (1000 * m) div 65535"
  shows "d \<le> h \<and> h - d \<le> 8"
proof -
  have 1: "1000 * x \<le> 65535 * h" "65535 * h < 1000 * x + 1000"
    unfolding x by linarith+
  have 2: "m \<le> x" "x - 511 \<le> m"
    unfolding m by linarith+
  have 3: "65535 * d \<le> 1000 * m" "1000 * m < 65535 * d + 65535"
    unfolding d by linarith+
  from 1 2 3 show ?thesis
    by linarith
qed

lemma quantize_temperature:
  fixes u :: int
  assumes "0 \<le> u" and "u \<le> 1750"
    and y: "y = (65535 * u) div 1750"
    and z: "z = y div 128"
    and d: "d = (z * 128 * 1750) div 65535"
  shows "d \<le> u \<and> u - d \<le> 4 \<and> z \<le> 511 \<and> 0 \<le> z"
proof -
  have 1: "1750 * y \<le> 65535 * u" "65535 * u < 1750 * y + 1750"
    unfolding y by linarith+
  have 2: "128 * z \<le> y" "y < 128 * z + 128"
    unfolding z by linarith+
  have 3: "65535 * d \<le> 224000 * z" "224000 * z < 65535 * d + 65535"
    unfolding d by linarith+
  from 1 2 3 assms(1,2) show ?thesis
    by linarith
qed

lemma round_trip_humidity:
  assumes "uint humidity \<le> 1000"
  shows "uint (alert_thd_humidity (alert_thd_limitVal humidity temperature)) \<le> uint humidity \<and>
         uint humidity - uint (alert_thd_humidity (alert_thd_limitVal humidity temperature)) \<le> 8"
proof -
  let ?X = "ucast ((push_bit 16 (ucast humidity) - ucast humidity :: 32 word) div 1000) :: 16 word"
  have f: "alert_thd_limitVal humidity temperature AND 0xFE00 = ?X AND 0xFE00"
    unfolding limitVal_fields by (rule fields_disjoint1)
  have x: "uint ?X = (65535 * uint humidity) div 1000"
    using assms by (rule humidity_field)
  have m: "uint (?X AND 0xFE00) = uint ?X - uint ?X mod 512"
    by (rule uint_and_high)
  have d: "uint (alert_thd_humidity (alert_thd_limitVal humidity temperature))
      = (1000 * uint (?X AND 0xFE00)) div 65535"
    unfolding decode_humidity f ..
  show ?thesis
    using quantize_humidity [OF _ assms x m d] by simp
qed

lemma round_trip_temperature:
  assumes "- 450 \<le> sint temperature" and "sint temperature \<le> 1300"
  shows "sint (alert_thd_temperature (alert_thd_limitVal humidity temperature)) \<le> sint temperature \<and>
         sint temperature - sint (alert_thd_temperature (alert_thd_limitVal humidity temperature)) \<le> 4"
proof -
  let ?Z = "ucast (drop_bit 7 ((push_bit 16 (scast temperature + 450)
      - (scast temperature + 450) :: 32 word) div 1750)) :: 16 word"
  let ?u = "sint temperature + 450"
  have u: "0 \<le> ?u" "?u \<le> 1750"
    using assms by simp_all
  have f: "alert_thd_limitVal humidity temperature AND 0x01FF = ?Z AND 0x01FF"
    unfolding limitVal_fields by (rule fields_disjoint2)
  have z: "uint ?Z = ((65535 * ?u) div 1750) div 128"
    using assms by (rule temperature_field)
  define d where "d = (uint ?Z * 128 * 1750) div 65535"
  have q: "d \<le> ?u \<and> ?u - d \<le> 4 \<and> uint ?Z \<le> 511 \<and> 0 \<le> uint ?Z"
    using quantize_temperature [OF u refl z d_def] .
  then have "uint ?Z mod 512 = uint ?Z"
    by simp
  then have "uint (?Z AND 0x01FF) = uint ?Z"
    by (simp only: uint_and_low)
  then have "sint (alert_thd_temperature (alert_thd_limitVal humidity temperature)) = d - 450"
    unfolding decode_temperature f d_def by simp
  with q show ?thesis
    by linarith
qed


lemma set_alert_thd_valid_slot:
  assumes "thd \<in> {SHT3X_HIALRT_SET, SHT3X_HIALRT_CLR, SHT3X_LOALRT_CLR, SHT3X_LOALRT_SET}"
  shows "\<exists>c. calls (snd (sht3x_set_alert_thd e s addr thd humidity temperature))
           = calls s @ [Write_cmd_with_args addr c [alert_thd_limitVal humidity temperature]]"
  using assms
  by (auto simp: sht3x_set_alert_thd_def sensirion_i2c_write_cmd_with_args_def Let_def)

lemma get_alert_thd_valid_slot:
  assumes "thd \<in> {SHT3X_HIALRT_SET, SHT3X_HIALRT_CLR, SHT3X_LOALRT_CLR, SHT3X_LOALRT_SET}"
  shows "\<exists>c. sht3x_get_alert_thd e s addr thd h0 t0 =
           (ret_code (bus e (calls s) (Read_cmd addr c 1)),
            alert_thd_humidity
              (store_buf [uninit16 e (calls s) 0] (reply_words (bus e (calls s) (Read_cmd addr c 1))) ! 0),
            alert_thd_temperature
              (store_buf [uninit16 e (calls s) 0] (reply_words (bus e (calls s) (Read_cmd addr c 1))) ! 0),
            log_call s (Read_cmd addr c 1))"
  using assms
  by (auto simp: sht3x_get_alert_thd_def sensirion_i2c_read_cmd_def Let_def)


text \<open>
  The threshold word at humidity 15 (1.5 %RH) and temperature -440 (-44.0 degC), and what
  the driver makes of it: humidity 15 comes back as 7.
\<close>

lemma limitVal_15: "alert_thd_limitVal 15 (- 440) = 514"
  by (simp add: alert_thd_limitVal_def Let_def SHT3X_HUMIDITY_LIMIT_MSK_def
      SHT3X_TEMPERATURE_LIMIT_MSK_def)

lemma decode_514: "alert_thd_humidity 514 = 7" "alert_thd_temperature 514 = - 444"
  by (simp_all add: alert_thd_humidity_def alert_thd_temperature_def int32_div_def Let_def
      SHT3X_HUMIDITY_LIMIT_MSK_def SHT3X_TEMPERATURE_LIMIT_MSK_def signed_divide_int_def)


lemma set_alert_thd_15:
  "sht3x_set_alert_thd (const_env False STATUS_OK [514] 0)
       \<lparr>sht3x_cmd_measure = 0x2400, calls = []\<rparr> 0x44 SHT3X_HIALRT_SET 15 (- 440)
     = (STATUS_OK,
        \<lparr>sht3x_cmd_measure = 0x2400, calls = [Write_cmd_with_args 0x44 0x611D [514]]\<rparr>)"
  by (simp add: sht3x_set_alert_thd_def sensirion_i2c_write_cmd_with_args_def Let_def
      limitVal_15 const_env_def log_call_def SHT3X_CMD_WRITE_HIALRT_LIM_SET_def)

lemma get_alert_thd_514:
  "sht3x_get_alert_thd (const_env False STATUS_OK [514] 0)
       \<lparr>sht3x_cmd_measure = 0x2400, calls = [Write_cmd_with_args 0x44 0x611D [514]]\<rparr>
       0x44 SHT3X_HIALRT_SET 0 0
     = (STATUS_OK, 7, - 444,
        \<lparr>sht3x_cmd_measure = 0x2400,
         calls = [Write_cmd_with_args 0x44 0x611D [514], Read_cmd 0x44 0xE11F 1]\<rparr>)"
  by (simp add: sht3x_get_alert_thd_def sensirion_i2c_read_cmd_def Let_def
      decode_514 const_env_def log_call_def store_buf_def SHT3X_CMD_READ_HIALRT_LIM_SET_def)


text \<open>
  Claim C1, as amended. Let \<open>0 \<le> h \<le> 1000\<close> and \<open>-450 \<le> t \<le> 1300\<close>, let
  \<open>sht3x_set_alert_thd\<close> be called for one of the four slots, so that it hands a threshold
  word to the bus, and let the bus hand that word to a call of \<open>sht3x_get_alert_thd\<close> for
  one of the four slots. Then the humidity stored by \<open>sht3x_get_alert_thd\<close> is at most \<open>h\<close>
  and falls short of it by at most 8 tenths of a percent, which is within
  \<open>1000*512/65535 + 1\<close>; the temperature stored is at most \<open>t\<close> and falls short of it by
  at most 4 tenths of a degree, which is within \<open>128*1750/65535 + 1\<close>.

  The bound \<open>1000*512/65535\<close> (about 7.81) for the humidity does not hold: the
  truncating division of the decoder costs up to one more unit, as the bound for the
  temperature already allows. At \<open>h = 15\<close> the humidity read back is 7.
\<close>

theorem alert_thd_round_trip:
  assumes "uint humidity \<le> 1000" and "- 450 \<le> sint temperature" and "sint temperature \<le> 1300"
    and "thd \<in> {SHT3X_HIALRT_SET, SHT3X_HIALRT_CLR, SHT3X_LOALRT_CLR, SHT3X_LOALRT_SET}"
    and "thd' \<in> {SHT3X_HIALRT_SET, SHT3X_HIALRT_CLR, SHT3X_LOALRT_CLR, SHT3X_LOALRT_SET}"
    and "last (calls (snd (sht3x_set_alert_thd e s addr thd humidity temperature)))
           = Write_cmd_with_args a c ws"
    and "sht3x_get_alert_thd e' s' addr' thd' h0 t0 = (ret, humidity', temperature', s'')"
    and "reply_words (bus e' (calls s') (last (calls s''))) = ws"
  shows "uint humidity' \<le> uint humidity \<and>
         uint humidity - uint humidity' \<le> 8 \<and>
         real_of_int (uint humidity - uint humidity') \<le> 1000 * 512 / 65535 + 1 \<and>
         sint temperature' \<le> sint temperature \<and>
         sint temperature - sint temperature' \<le> 4 \<and>
         real_of_int (sint temperature - sint temperature') \<le> 128 * 1750 / 65535 + 1"
proof -
  let ?w = "alert_thd_limitVal humidity temperature"
  have ws: "ws = [?w]"
    using set_alert_thd_valid_slot [OF assms(4), of e s addr humidity temperature] assms(6)
    by auto
  obtain c' where g: "sht3x_get_alert_thd e' s' addr' thd' h0 t0 =
           (ret_code (bus e' (calls s') (Read_cmd addr' c' 1)),
            alert_thd_humidity
              (store_buf [uninit16 e' (calls s') 0] (reply_words (bus e' (calls s') (Read_cmd addr' c' 1))) ! 0),
            alert_thd_temperature
              (store_buf [uninit16 e' (calls s') 0] (reply_words (bus e' (calls s') (Read_cmd addr' c' 1))) ! 0),
            log_call s' (Read_cmd addr' c' 1))"
    using get_alert_thd_valid_slot [OF assms(5)] by blast
  have l: "last (calls s'') = Read_cmd addr' c' 1"
    using g assms(7) by auto
  have r: "reply_words (bus e' (calls s') (Read_cmd addr' c' 1)) = [?w]"
    using assms(8) unfolding l ws .
  have h': "humidity' = alert_thd_humidity ?w" and t': "temperature' = alert_thd_temperature ?w"
    using g assms(7) unfolding r by simp_all
  have H: "uint humidity' \<le> uint humidity \<and> uint humidity - uint humidity' \<le> 8"
    unfolding h' using assms(1) by (rule round_trip_humidity)
  have T: "sint temperature' \<le> sint temperature \<and> sint temperature - sint temperature' \<le> 4"
    unfolding t' using assms(2,3) by (rule round_trip_temperature)
  from H have "uint humidity - uint humidity' \<le> 8" ..
  then have "real_of_int (uint humidity - uint humidity') \<le> real_of_int 8"
    by (simp only: of_int_le_iff)
  also have "real_of_int 8 \<le> 1000 * 512 / 65535 + 1"
    by simp
  finally have Hr: "real_of_int (uint humidity - uint humidity') \<le> 1000 * 512 / 65535 + 1" .
  from T have "sint temperature - sint temperature' \<le> 4" ..
  then have "real_of_int (sint temperature - sint temperature') \<le> real_of_int 4"
    by (simp only: of_int_le_iff)
  also have "real_of_int 4 \<le> 128 * 1750 / 65535 + 1"
    by simp
  finally have Tr: "real_of_int (sint temperature - sint temperature') \<le> 128 * 1750 / 65535 + 1" .
  from H T Hr Tr show ?thesis
    by blast
qed

theorem alert_thd_round_trip_witness:
  "uint (15 :: uint16_t) \<le> 1000 \<and> - 450 \<le> sint (- 440 :: int16_t) \<and>
   sint (- 440 :: int16_t) \<le> 1300 \<and>
   last (calls (snd (sht3x_set_alert_thd (const_env False STATUS_OK [514] 0)
       \<lparr>sht3x_cmd_measure = 0x2400, calls = []\<rparr> 0x44 SHT3X_HIALRT_SET 15 (- 440))))
     = Write_cmd_with_args 0x44 0x611D [514] \<and>
   sht3x_get_alert_thd (const_env False STATUS_OK [514] 0)
       \<lparr>sht3x_cmd_measure = 0x2400, calls = [Write_cmd_with_args 0x44 0x611D [514]]\<rparr>
       0x44 SHT3X_HIALRT_SET 0 0
     = (STATUS_OK, 7, - 444,
        \<lparr>sht3x_cmd_measure = 0x2400,
         calls = [Write_cmd_with_args 0x44 0x611D [514], Read_cmd 0x44 0xE11F 1]\<rparr>) \<and>
   uint (7 :: uint16_t) \<le> uint (15 :: uint16_t) \<and>
   uint (15 :: uint16_t) - uint (7 :: uint16_t) \<le> 8 \<and>
   sint (- 444 :: int16_t) \<le> sint (- 440 :: int16_t) \<and>
   sint (- 440 :: int16_t) - sint (- 444 :: int16_t) \<le> 4"
proof -
  let ?e = "const_env False STATUS_OK [514] 0"
  let ?s1 = "\<lparr>sht3x_cmd_measure = 0x2400, calls = [Write_cmd_with_args 0x44 0x611D [514]]\<rparr>"
  let ?s2 = "\<lparr>sht3x_cmd_measure = 0x2400,
         calls = [Write_cmd_with_args 0x44 0x611D [514], Read_cmd 0x44 0xE11F 1]\<rparr>"
  have h1: "uint (15 :: uint16_t) \<le> 1000"
    by simp
  have h2: "- 450 \<le> sint (- 440 :: int16_t)"
    by simp
  have h3: "sint (- 440 :: int16_t) \<le> 1300"
    by simp
  have v: "SHT3X_HIALRT_SET \<in> {SHT3X_HIALRT_SET, SHT3X_HIALRT_CLR, SHT3X_LOALRT_CLR, SHT3X_LOALRT_SET}"
    by simp
  have l: "last (calls (snd (sht3x_set_alert_thd ?e
       \<lparr>sht3x_cmd_measure = 0x2400, calls = []\<rparr> 0x44 SHT3X_HIALRT_SET 15 (- 440))))
     = Write_cmd_with_args 0x44 0x611D [514]"
    by (simp add: set_alert_thd_15)
  have r: "reply_words (bus ?e (calls ?s1) (last (calls ?s2))) = [514]"
    by (simp add: const_env_def)
  note t = alert_thd_round_trip [OF h1 h2 h3 v v l get_alert_thd_514 r]
  show ?thesis
    using h1 h2 h3 l get_alert_thd_514 t by blast
qed

text \<open>
  The bound as the claim has it, without the \<open>+ 1\<close>, fails at humidity 15 and
  temperature -440: the driver sends the word 514 (0x0202), and from that word it reads
  back humidity 7, which is 8 below 15, while \<open>1000*512/65535\<close> is less than 8 (and is 7
  when the division truncates).
\<close>

theorem alert_thd_round_trip_counterexample:
  "sht3x_set_alert_thd (const_env False STATUS_OK [514] 0)
       \<lparr>sht3x_cmd_measure = 0x2400, calls = []\<rparr> 0x44 SHT3X_HIALRT_SET 15 (- 440)
     = (STATUS_OK,
        \<lparr>sht3x_cmd_measure = 0x2400, calls = [Write_cmd_with_args 0x44 0x611D [514]]\<rparr>) \<and>
   sht3x_get_alert_thd (const_env False STATUS_OK [514] 0)
       \<lparr>sht3x_cmd_measure = 0x2400, calls = [Write_cmd_with_args 0x44 0x611D [514]]\<rparr>
       0x44 SHT3X_HIALRT_SET 0 0
     = (STATUS_OK, 7, - 444,
        \<lparr>sht3x_cmd_measure = 0x2400,
         calls = [Write_cmd_with_args 0x44 0x611D [514], Read_cmd 0x44 0xE11F 1]\<rparr>) \<and>
   \<not> (\<bar>real_of_int (uint (7 :: uint16_t)) - real_of_int (uint (15 :: uint16_t))\<bar>
        \<le> 1000 * 512 / 65535) \<and>
   \<not> (\<bar>uint (7 :: uint16_t) - uint (15 :: uint16_t)\<bar> \<le> (1000 * 512) div 65535)"
proof -
  have "\<not> (\<bar>real_of_int (uint (7 :: uint16_t)) - real_of_int (uint (15 :: uint16_t))\<bar>
        \<le> 1000 * 512 / 65535)"
    by simp
  moreover have "\<not> (\<bar>uint (7 :: uint16_t) - uint (15 :: uint16_t)\<bar> \<le> (1000 * 512) div 65535)"
    by simp
  ultimately show ?thesis
    using set_alert_thd_15 get_alert_thd_514 by blast
qed


end
